theory Spec2Isabelle
  imports Main "HOL-Library.Word" "HOL-Library.Sublist"
begin

unbundle bit_operations_syntax

section \<open>Data model of the image optimizer\<close>

text \<open>
  The handler \<open>imageOptimizer\<close> of \<open>next-server/server/image-optimizer.ts\<close> is embedded
  as a function of the request, the server configuration and the file system.

  A JavaScript string is represented by the list of its UTF-8 bytes (\<open>string\<close>). This is
  what \<open>hash.update\<close> feeds to the hash; emptiness, equality and concatenation of strings
  are the same on both sides.

  A value of the parsed query (\<open>parse(reqUrl, true).query\<close>) is \<open>undefined\<close>, one
  string, or an array of strings when the key is repeated.
\<close>

datatype qval = Undefined | Str string | Arr "string list"

text \<open>The test \<open>!v\<close>: \<open>undefined\<close> and the empty string are falsy, an array never is.\<close>

fun falsy :: "qval \<Rightarrow> bool" where
  "falsy Undefined = True"
| "falsy (Str s) = (s = [])"
| "falsy (Arr xs) = False"

text \<open>\<open>nextConfig.experimental.images\<close> with its defaults \<open>sizes = []\<close>, \<open>domains = []\<close>,
  and \<open>distDir\<close>, both read from \<open>this\<close>. Both options are lists, so the tests
  \<open>Array.isArray(sizes)\<close> and \<open>Array.isArray(domains)\<close> hold.\<close>

record server =
  sizes :: "int list"
  domains :: "string list"
  distDir :: string

text \<open>What the handler reads of the request: the three query values and two headers.\<close>

record request =
  query_url :: qval
  query_w :: qval
  query_q :: qval
  header_host :: "string option"
  header_accept :: "string option"

text \<open>The two fields of a WHATWG \<open>URL\<close> object that the handler reads.\<close>

record URL =
  href :: string
  hostname :: string

text \<open>The response: \<open>res.statusCode\<close> (200 unless assigned) and the bytes written to it.\<close>

record response =
  statusCode :: nat
  body :: string

record fetch_response =
  ok :: bool
  status :: nat
  fetch_body :: "string option"

text \<open>The calls made on the \<open>sharp\<close> transformer, in order.\<close>

datatype sharp_op = Resize int | Webp int

text \<open>
  The libraries the handler calls, and the directories it finds, are parameters of the
  model. Where a call can fail on what a request sends, the failure is a value:
  \<^item> \<open>new_URL u None\<close> is \<open>new URL(u)\<close> and \<open>new_URL u (Some b)\<close> is \<open>new URL(u, b)\<close>;
    \<open>None\<close> as result is the \<open>TypeError\<close> thrown for an unparsable URL;
  \<^item> \<open>accept_mediaType\<close> is \<open>accept.mediaType\<close> of \<open>@hapi/accept\<close>;
  \<^item> \<open>sha256\<close> maps the bytes fed to the hash to the digest bytes;
  \<^item> \<open>path_join\<close> is \<open>join\<close> of \<open>path\<close>;
  \<^item> \<open>fetch\<close> maps the fetched address to the upstream's response, or to the error that
    the rejected promise carries (\<open>Inl\<close>);
  \<^item> \<open>sharp_refuses op\<close> is the error that the call \<open>op\<close> on the transformer throws
    when \<open>sharp\<close> refuses its argument (\<open>resize\<close> refuses a width that is not a positive
    integer), and \<open>None\<close> when the call returns;
  \<^item> \<open>sharp_pipe ops bytes\<close> is the output of the transformer configured by \<open>ops\<close> on
    the input \<open>bytes\<close>, or the error that the stream emits when it cannot process them
    (\<open>Inl\<close>);
  \<^item> \<open>writable p\<close> tells whether a file can be opened for writing at the path \<open>p\<close>,
    that is whether the directory that is to hold it exists. The handler creates no
    directory.
\<close>

record collab =
  new_URL :: "string \<Rightarrow> string option \<Rightarrow> URL option"
  accept_mediaType :: "string option \<Rightarrow> string list \<Rightarrow> string"
  sha256 :: "string \<Rightarrow> 8 word list"
  path_join :: "string list \<Rightarrow> string"
  fetch :: "string \<Rightarrow> string + fetch_response"
  sharp_refuses :: "sharp_op \<Rightarrow> string option"
  sharp_pipe :: "sharp_op list \<Rightarrow> string \<Rightarrow> string + string"
  writable :: "string \<Rightarrow> bool"

text \<open>The file system maps a path to the bytes of the file there.\<close>

type_synonym files = "string \<rightharpoonup> string"

datatype effect =
    FileExists string
  | CreateReadStream string
  | Fetch string
  | CreateWriteStream string

text \<open>
  The handler returns \<open>{ finished: true }\<close> after writing the response
  (\<open>Finished\<close>), or throws (\<open>Thrown\<close>). It attaches no \<open>error\<close> listener to the streams
  it creates, so an error of one of them, which comes after the handler has returned, is
  an uncaught exception of the process: \<open>WriteFailed p\<close> when the write stream cannot
  open the path \<open>p\<close>, \<open>TransformFailed e\<close> when the transformer emits the error \<open>e\<close>.
  What has reached the response by then is not part of the model.
\<close>

datatype outcome = Finished response | Thrown string | WriteFailed string | TransformFailed string

section \<open>Numbers and strings of the JavaScript runtime\<close>

text \<open>
  \<open>parseInt(s)\<close> without radix: leading white space is skipped, then an optional sign,
  then \<open>0x\<close> or \<open>0X\<close> selects radix 16, then the longest prefix of digits is read;
  with no digit the result is \<open>NaN\<close> (here \<open>None\<close>). The number is modelled as the exact
  integer: the double that JavaScript returns has the same sign, is zero for the same
  strings and compares the same with every integer below \<open>2 ^ 53\<close>.
\<close>

definition StrWhiteSpaceChars :: "string list" where
  "StrWhiteSpaceChars =
    [[CHR 0x09], [CHR 0x0A], [CHR 0x0B], [CHR 0x0C], [CHR 0x0D], [CHR 0x20],
     [CHR 0xC2, CHR 0xA0],
     [CHR 0xE1, CHR 0x9A, CHR 0x80],
     [CHR 0xE2, CHR 0x80, CHR 0x80], [CHR 0xE2, CHR 0x80, CHR 0x81],
     [CHR 0xE2, CHR 0x80, CHR 0x82], [CHR 0xE2, CHR 0x80, CHR 0x83],
     [CHR 0xE2, CHR 0x80, CHR 0x84], [CHR 0xE2, CHR 0x80, CHR 0x85],
     [CHR 0xE2, CHR 0x80, CHR 0x86], [CHR 0xE2, CHR 0x80, CHR 0x87],
     [CHR 0xE2, CHR 0x80, CHR 0x88], [CHR 0xE2, CHR 0x80, CHR 0x89],
     [CHR 0xE2, CHR 0x80, CHR 0x8A],
     [CHR 0xE2, CHR 0x80, CHR 0xA8], [CHR 0xE2, CHR 0x80, CHR 0xA9],
     [CHR 0xE2, CHR 0x80, CHR 0xAF],
     [CHR 0xE2, CHR 0x81, CHR 0x9F],
     [CHR 0xE3, CHR 0x80, CHR 0x80],
     [CHR 0xEF, CHR 0xBB, CHR 0xBF]]"

definition white_space_at :: "string \<Rightarrow> nat" where
  "white_space_at s =
    (case find (\<lambda>p. prefix p s) StrWhiteSpaceChars of None \<Rightarrow> 0 | Some p \<Rightarrow> length p)"

function trim_start :: "string \<Rightarrow> string" where
  "trim_start s = (if white_space_at s = 0 then s else trim_start (drop (white_space_at s) s))"
  by pat_completeness auto
termination
proof (relation "measure length")
  fix s :: string
  assume "white_space_at s \<noteq> 0"
  then obtain p where "find (\<lambda>p. prefix p s) StrWhiteSpaceChars = Some p" and "p \<noteq> []"
    by (auto simp: white_space_at_def split: option.splits)
  then have "prefix p s"
    by (auto simp: find_Some_iff)
  with \<open>p \<noteq> []\<close> have "s \<noteq> []"
    by auto
  with \<open>white_space_at s \<noteq> 0\<close>
  show "(drop (white_space_at s) s, s) \<in> measure length"
    by simp
qed simp

declare trim_start.simps [simp del]

definition digit_value :: "char \<Rightarrow> nat option" where
  "digit_value c =
    (let n = (of_char c :: nat) in
     if 48 \<le> n \<and> n \<le> 57 then Some (n - 48)
     else if 97 \<le> n \<and> n \<le> 122 then Some (n - 87)
     else if 65 \<le> n \<and> n \<le> 90 then Some (n - 55)
     else None)"

definition is_digit :: "nat \<Rightarrow> char \<Rightarrow> bool" where
  "is_digit R c = (case digit_value c of None \<Rightarrow> False | Some d \<Rightarrow> d < R)"

definition digits_value :: "nat \<Rightarrow> string \<Rightarrow> nat" where
  "digits_value R Z =
    foldl (\<lambda>a c. case digit_value c of None \<Rightarrow> a | Some d \<Rightarrow> a * R + d) 0 Z"

definition parseInt :: "string \<Rightarrow> int option" where
  "parseInt inputString =
    (let S = trim_start inputString;
         sign = (if S \<noteq> [] \<and> hd S = CHR ''-'' then - 1 else 1 :: int);
         S = (if S \<noteq> [] \<and> (hd S = CHR ''+'' \<or> hd S = CHR ''-'') then tl S else S);
         hex = (take 2 S = ''0x'' \<or> take 2 S = ''0X'');
         R = (if hex then 16 else 10);
         S = (if hex then drop 2 S else S);
         Z = takeWhile (is_digit R) S
     in if Z = [] then None else Some (sign * int (digits_value R Z)))"

text \<open>The decimal numeral of a number, as a template literal prints an integer.\<close>

fun nat_digits :: "nat \<Rightarrow> string" where
  "nat_digits n =
    (if n < 10 then [char_of (48 + n)] else nat_digits (n div 10) @ [char_of (48 + n mod 10)])"

declare nat_digits.simps [simp del]

definition number_string :: "int \<Rightarrow> string" where
  "number_string i = (if i < 0 then CHR ''-'' # nat_digits (nat (- i)) else nat_digits (nat i))"

section \<open>The handler\<close>

definition AVIF :: string where "AVIF = ''image/avif''"
definition WEBP :: string where "WEBP = ''image/webp''"
definition MEDIA_TYPES :: "string list" where "MEDIA_TYPES = [WEBP]"

text \<open>The template literal \<open>`https://${host}`\<close>; an absent header prints as \<open>undefined\<close>.\<close>

definition host_base :: "string option \<Rightarrow> string" where
  "host_base host = ''https://'' @ (case host of None \<Rightarrow> ''undefined'' | Some h \<Rightarrow> h)"

definition reject :: "string \<Rightarrow> response" where
  "reject msg = \<lparr>statusCode = 400, body = msg\<rparr>"

text \<open>What the checks of lines 33 to 107 leave for the rest of the handler.\<close>

record validated =
  v_url :: string
  v_w :: string
  v_q :: string
  v_absoluteUrl :: URL
  v_width :: int
  v_quality :: int

text \<open>Lines 43 to 65: the URL is parsed as absolute; if that throws, against the host.\<close>

definition resolve_url :: "collab \<Rightarrow> server \<Rightarrow> request \<Rightarrow> string \<Rightarrow> response + URL" where
  "resolve_url c srv req url =
    (case new_URL c url None of
       Some absoluteUrl \<Rightarrow>
         if domains srv \<noteq> [] \<and> hostname absoluteUrl \<notin> set (domains srv)
         then Inl (reject ''\"url\" parameter is not allowed'')
         else Inr absoluteUrl
     | None \<Rightarrow>
         (case new_URL c url (Some (host_base (header_host req))) of
            Some absoluteUrl \<Rightarrow> Inr absoluteUrl
          | None \<Rightarrow> Inl (reject ''\"url\" parameter is invalid'')))"

text \<open>Lines 67 to 107, once \<open>url\<close> is a string and \<open>absoluteUrl\<close> is assigned.
  A value that is not falsy and not an array is a string.\<close>

definition check_quality :: "string \<Rightarrow> string \<Rightarrow> string \<Rightarrow> URL \<Rightarrow> int \<Rightarrow> response + validated" where
  "check_quality url w q absUrl width =
    (case parseInt q of
       None \<Rightarrow> Inl (reject ''\"q\" parameter (quality) must be a number between 1 and 100'')
     | Some quality \<Rightarrow>
         if quality < 1 \<or> quality > 100
         then Inl (reject ''\"q\" parameter (quality) must be a number between 1 and 100'')
         else Inr \<lparr>v_url = url, v_w = w, v_q = q, v_absoluteUrl = absUrl,
                   v_width = width, v_quality = quality\<rparr>)"

definition check_width :: "server \<Rightarrow> string \<Rightarrow> string \<Rightarrow> string \<Rightarrow> URL \<Rightarrow> response + validated" where
  "check_width srv url w q absUrl =
    (case parseInt w of
       None \<Rightarrow> Inl (reject ''\"w\" parameter (width) must be a number greater than 0'')
     | Some width \<Rightarrow>
         if width = 0
         then Inl (reject ''\"w\" parameter (width) must be a number greater than 0'')
         else if sizes srv \<noteq> [] \<and> width \<notin> set (sizes srv)
         then Inl (reject (''\"w\" parameter (width) of '' @ number_string width
                           @ '' is not allowed''))
         else check_quality url w q absUrl width)"

definition check_w_q :: "server \<Rightarrow> request \<Rightarrow> string \<Rightarrow> URL \<Rightarrow> response + validated" where
  "check_w_q srv req url absUrl =
    (if falsy (query_w req) then Inl (reject ''\"w\" parameter (width) is required'')
     else case query_w req of
       Arr ws \<Rightarrow> Inl (reject ''\"w\" parameter (width) cannot be an array'')
     | Undefined \<Rightarrow> Inl (reject ''\"w\" parameter (width) is required'')
     | Str w \<Rightarrow>
        (if falsy (query_q req) then Inl (reject ''\"q\" parameter (quality) is required'')
         else case query_q req of
           Arr qs \<Rightarrow> Inl (reject ''\"q\" parameter (quality) cannot be an array'')
         | Undefined \<Rightarrow> Inl (reject ''\"q\" parameter (quality) is required'')
         | Str q \<Rightarrow> check_width srv url w q absUrl))"

text \<open>Lines 33 to 107.\<close>

definition validate :: "collab \<Rightarrow> server \<Rightarrow> request \<Rightarrow> response + validated" where
  "validate c srv req =
    (if falsy (query_url req) then Inl (reject ''\"url\" parameter is required'')
     else case query_url req of
       Arr us \<Rightarrow> Inl (reject ''\"url\" parameter cannot be an array'')
     | Undefined \<Rightarrow> Inl (reject ''\"url\" parameter is required'')
     | Str url \<Rightarrow>
        (case resolve_url c srv req url of
           Inl r \<Rightarrow> Inl r
         | Inr absUrl \<Rightarrow> check_w_q srv req url absUrl))"

section \<open>Cache key\<close>

text \<open>The encoding \<open>base64\<close> of Node: the standard alphabet with \<open>+\<close> and \<open>/\<close>,
  padded with \<open>=\<close>.\<close>

definition base64_alphabet :: string where
  "base64_alphabet = ''ABCDEFGHIJKLMNOPQRSTUVWXYZabcdefghijklmnopqrstuvwxyz0123456789+/''"

definition b64 :: "nat \<Rightarrow> char" where
  "b64 n = base64_alphabet ! (n mod 64)"

fun base64_nat :: "nat list \<Rightarrow> string" where
  "base64_nat (a # b # c # r) =
    b64 (a div 4) # b64 (a mod 4 * 16 + b div 16) # b64 (b mod 16 * 4 + c div 64) # b64 (c mod 64)
      # base64_nat r"
| "base64_nat [a, b] = [b64 (a div 4), b64 (a mod 4 * 16 + b div 16), b64 (b mod 16 * 4), CHR ''='']"
| "base64_nat [a] = [b64 (a div 4), b64 (a mod 4 * 16), CHR ''='', CHR ''='']"
| "base64_nat [] = []"

definition base64 :: "8 word list \<Rightarrow> string" where
  "base64 bytes = base64_nat (map unat bytes)"

text \<open>Lines 109 to 115: the four \<open>hash.update\<close> calls append to the hashed bytes.\<close>

definition hash_input :: "string \<Rightarrow> string \<Rightarrow> string \<Rightarrow> string \<Rightarrow> string" where
  "hash_input url w q mediaType = url @ w @ q @ mediaType"

definition cacheKey :: "collab \<Rightarrow> string \<Rightarrow> string \<Rightarrow> string \<Rightarrow> string \<Rightarrow> string" where
  "cacheKey c url w q mediaType = base64 (sha256 c (hash_input url w q mediaType))"

definition cacheFile :: "collab \<Rightarrow> server \<Rightarrow> string \<Rightarrow> string" where
  "cacheFile c srv key = path_join c [distDir srv, ''cache'', ''images'', key]"

section \<open>Cache lookup and transform\<close>

text \<open>Lines 128 to 135: the calls that configure the transformer, in order.\<close>

definition transformer :: "string \<Rightarrow> int \<Rightarrow> int \<Rightarrow> sharp_op list" where
  "transformer mediaType width quality =
    Resize width # (if mediaType = WEBP then [Webp quality] else [])"

text \<open>The error of the first of these calls that throws, if one does.\<close>

fun sharp_error :: "collab \<Rightarrow> sharp_op list \<Rightarrow> string option" where
  "sharp_error c [] = None"
| "sharp_error c (call # calls) =
    (case sharp_refuses c call of Some err \<Rightarrow> Some err | None \<Rightarrow> sharp_error c calls)"

text \<open>
  Lines 109 to 153: the result, the file system afterwards and the calls made on the
  file system and the network, in order. A file exists when the file system has bytes at
  its path; \<open>pipe\<close> hands all bytes of its source to its target.

  After a miss the transformer is configured before anything is fetched (lines 128 to
  135), so a call that \<open>sharp\<close> refuses makes the handler throw with only the existence
  test made. Then comes the fetch (line 137) with its two tests. Lines 150 to 152 connect
  the streams: \<open>fs.createWriteStream\<close> is called in every case; when it cannot open the
  path nothing is stored; when it can, the file is created, and it stays empty if the
  transformer fails on the fetched bytes.

  Outside the model: \<open>require('sharp')\<close> failing because the library is not installed,
  I/O errors of an opened file, and the client closing the connection.
\<close>

definition serve :: "collab \<Rightarrow> server \<Rightarrow> string \<Rightarrow> validated \<Rightarrow> files \<Rightarrow> outcome \<times> files \<times> effect list" where
  "serve c srv mediaType v fs =
    (let key = cacheKey c (v_url v) (v_w v) (v_q v) mediaType;
         file = cacheFile c srv key
     in case fs file of
          Some cached \<Rightarrow>
            (Finished \<lparr>statusCode = 200, body = cached\<rparr>, fs, [FileExists file, CreateReadStream file])
        | None \<Rightarrow>
            (let t = transformer mediaType (v_width v) (v_quality v)
             in case sharp_error c t of
                  Some err \<Rightarrow> (Thrown err, fs, [FileExists file])
                | None \<Rightarrow>
                    (case fetch c (href (v_absoluteUrl v)) of
                       Inl err \<Rightarrow> (Thrown err, fs, [FileExists file, Fetch (href (v_absoluteUrl v))])
                     | Inr fetchResponse \<Rightarrow>
                         if \<not> ok fetchResponse
                         then (Thrown (''Unexpected status ''
                                 @ number_string (int (status fetchResponse))
                                 @ '' from '' @ href (v_absoluteUrl v)),
                               fs, [FileExists file, Fetch (href (v_absoluteUrl v))])
                         else case fetch_body fetchResponse of
                           None \<Rightarrow>
                             (Thrown (''No body from '' @ href (v_absoluteUrl v)),
                              fs, [FileExists file, Fetch (href (v_absoluteUrl v))])
                         | Some bytes \<Rightarrow>
                             (if \<not> writable c file then WriteFailed file
                              else case sharp_pipe c t bytes of
                                     Inl err \<Rightarrow> TransformFailed err
                                   | Inr imageTransform \<Rightarrow>
                                       Finished \<lparr>statusCode = 200, body = imageTransform\<rparr>,
                              if \<not> writable c file then fs
                              else case sharp_pipe c t bytes of
                                     Inl err \<Rightarrow> fs(file \<mapsto> [])
                                   | Inr imageTransform \<Rightarrow> fs(file \<mapsto> imageTransform),
                              [FileExists file, Fetch (href (v_absoluteUrl v)),
                               CreateWriteStream file]))))"

text \<open>The whole handler.\<close>

definition imageOptimizer :: "collab \<Rightarrow> server \<Rightarrow> request \<Rightarrow> files \<Rightarrow> outcome \<times> files \<times> effect list" where
  "imageOptimizer c srv req fs =
    (let mediaType = accept_mediaType c (header_accept req) MEDIA_TYPES
     in case validate c srv req of
          Inl r \<Rightarrow> (Finished r, fs, [])
        | Inr v \<Rightarrow> serve c srv mediaType v fs)"

section \<open>SHA-256\<close>

text \<open>
  The hash that \<open>crypto.createHash('sha256')\<close> names, as FIPS 180-4 specifies it, on
  32-bit words written as natural numbers below \<open>2 ^ 32\<close> with the wrap-around of the
  addition written out. It is used to run the handler on concrete requests; the handler
  itself takes the hash as a parameter.
\<close>

definition add32 :: "nat \<Rightarrow> nat \<Rightarrow> nat" where
  "add32 x y = (x + y) mod 2 ^ 32"

definition rotr :: "nat \<Rightarrow> nat \<Rightarrow> nat" where
  "rotr n x = x div 2 ^ n + (x mod 2 ^ n) * 2 ^ (32 - n)"

definition Ch :: "nat \<Rightarrow> nat \<Rightarrow> nat \<Rightarrow> nat" where
  "Ch e f g = (e AND f) XOR ((2 ^ 32 - 1 - e) AND g)"

definition Maj :: "nat \<Rightarrow> nat \<Rightarrow> nat \<Rightarrow> nat" where
  "Maj a b c = (a AND b) XOR (a AND c) XOR (b AND c)"

definition Sigma0 :: "nat \<Rightarrow> nat" where
  "Sigma0 x = rotr 2 x XOR rotr 13 x XOR rotr 22 x"

definition Sigma1 :: "nat \<Rightarrow> nat" where
  "Sigma1 x = rotr 6 x XOR rotr 11 x XOR rotr 25 x"

definition sigma0 :: "nat \<Rightarrow> nat" where
  "sigma0 x = rotr 7 x XOR rotr 18 x XOR x div 2 ^ 3"

definition sigma1 :: "nat \<Rightarrow> nat" where
  "sigma1 x = rotr 17 x XOR rotr 19 x XOR x div 2 ^ 10"

text \<open>The round constants and the initial hash value, in decimal.\<close>

definition K256 :: "nat list" where
  "K256 =
    [1116352408, 1899447441, 3049323471, 3921009573, 961987163, 1508970993, 2453635748,
    2870763221, 3624381080, 310598401, 607225278, 1426881987, 1925078388, 2162078206,
    2614888103, 3248222580, 3835390401, 4022224774, 264347078, 604807628, 770255983,
    1249150122, 1555081692, 1996064986, 2554220882, 2821834349, 2952996808, 3210313671,
    3336571891, 3584528711, 113926993, 338241895, 666307205, 773529912, 1294757372, 1396182291,
    1695183700, 1986661051, 2177026350, 2456956037, 2730485921, 2820302411, 3259730800,
    3345764771, 3516065817, 3600352804, 4094571909, 275423344, 430227734, 506948616, 659060556,
    883997877, 958139571, 1322822218, 1537002063, 1747873779, 1955562222, 2024104815,
    2227730452, 2361852424, 2428436474, 2756734187, 3204031479, 3329325298]"

definition H256 :: "nat list" where
  "H256 =
    [1779033703, 3144134277, 1013904242, 2773480762, 1359893119, 2600822924, 528734635,
    1541459225]"

text \<open>The message schedule of a block of 16 words: \<open>W\<close> holds the last 16 words.\<close>

fun schedule :: "nat \<Rightarrow> nat list \<Rightarrow> nat list" where
  "schedule 0 W = []"
| "schedule (Suc n) W =
    W ! 0 # schedule n
      (tl W @ [add32 (add32 (sigma1 (W ! 14)) (W ! 9)) (add32 (sigma0 (W ! 1)) (W ! 0))])"

fun round256 :: "nat list \<Rightarrow> nat \<times> nat \<Rightarrow> nat list" where
  "round256 [a, b, c, d, e, f, g, h] (k, w) =
    (let T1 = add32 (add32 (add32 h (Sigma1 e)) (add32 (Ch e f g) k)) w;
         T2 = add32 (Sigma0 a) (Maj a b c)
     in [add32 T1 T2, a, b, c, add32 d T1, e, f, g])"
| "round256 s kw = s"

definition compress :: "nat list \<Rightarrow> nat list \<Rightarrow> nat list" where
  "compress H M = map2 add32 H (foldl round256 H (zip K256 (schedule 64 M)))"

text \<open>Big-endian bytes of a word and of the 64-bit length; the padding; the words of
  the padded message.\<close>

definition be32 :: "nat \<Rightarrow> nat list" where
  "be32 n = [n div 2 ^ 24 mod 256, n div 2 ^ 16 mod 256, n div 2 ^ 8 mod 256, n mod 256]"

definition be64 :: "nat \<Rightarrow> nat list" where
  "be64 n = be32 (n div 2 ^ 32) @ be32 (n mod 2 ^ 32)"

definition pad :: "nat list \<Rightarrow> nat list" where
  "pad m = m @ [128] @ replicate ((119 - length m mod 64) mod 64) 0 @ be64 (8 * length m)"

fun be_words :: "nat list \<Rightarrow> nat list" where
  "be_words (a # b # c # d # r) = (a * 2 ^ 24 + b * 2 ^ 16 + c * 2 ^ 8 + d) # be_words r"
| "be_words r = []"

fun blocks :: "nat list \<Rightarrow> nat list \<Rightarrow> nat list" where
  "blocks H [] = H"
| "blocks H (x # xs) = blocks (compress H (take 16 (x # xs))) (drop 16 (x # xs))"

definition SHA256 :: "string \<Rightarrow> 8 word list" where
  "SHA256 s = map of_nat (concat (map be32 (blocks H256 (be_words (pad (map of_char s))))))"

section \<open>The rejections and their order\<close>

text \<open>The eleven rejections of the validator and the message of each.\<close>

datatype rejection =
    MissingURL | ArrayURL | InvalidURL | DomainNotAllowed
  | MissingWidth | ArrayWidth | InvalidWidth | WidthNotAllowed int
  | MissingQuality | ArrayQuality | InvalidQuality

fun message :: "rejection \<Rightarrow> string" where
  "message MissingURL = ''\"url\" parameter is required''"
| "message ArrayURL = ''\"url\" parameter cannot be an array''"
| "message InvalidURL = ''\"url\" parameter is invalid''"
| "message DomainNotAllowed = ''\"url\" parameter is not allowed''"
| "message MissingWidth = ''\"w\" parameter (width) is required''"
| "message ArrayWidth = ''\"w\" parameter (width) cannot be an array''"
| "message InvalidWidth = ''\"w\" parameter (width) must be a number greater than 0''"
| "message (WidthNotAllowed n) = ''\"w\" parameter (width) of '' @ number_string n @ '' is not allowed''"
| "message MissingQuality = ''\"q\" parameter (quality) is required''"
| "message ArrayQuality = ''\"q\" parameter (quality) cannot be an array''"
| "message InvalidQuality = ''\"q\" parameter (quality) must be a number between 1 and 100''"

fun is_array :: "qval \<Rightarrow> bool" where
  "is_array (Arr xs) = True"
| "is_array _ = False"

fun string_of :: "qval \<Rightarrow> string" where
  "string_of (Str s) = s"
| "string_of _ = []"

text \<open>
  The order of the checks written as a list, for the comparison with the validator: each
  entry is the condition under which a check fails and the rejection it gives, and
  \<open>first_failure\<close> is the rejection of the first entry whose condition holds.
\<close>

definition checks_in_order :: "collab \<Rightarrow> server \<Rightarrow> request \<Rightarrow> (bool \<times> rejection) list" where
  "checks_in_order c srv req =
    (let url = string_of (query_url req);
         absolute = new_URL c url None;
         relative = new_URL c url (Some (host_base (header_host req)));
         width = parseInt (string_of (query_w req));
         quality = parseInt (string_of (query_q req))
     in [(falsy (query_url req), MissingURL),
         (is_array (query_url req), ArrayURL),
         (case absolute of None \<Rightarrow> False
          | Some u \<Rightarrow> domains srv \<noteq> [] \<and> hostname u \<notin> set (domains srv), DomainNotAllowed),
         (absolute = None \<and> relative = None, InvalidURL),
         (falsy (query_w req), MissingWidth),
         (is_array (query_w req), ArrayWidth),
         (falsy (query_q req), MissingQuality),
         (is_array (query_q req), ArrayQuality),
         (width = None \<or> width = Some 0, InvalidWidth),
         (case width of None \<Rightarrow> False
          | Some n \<Rightarrow> sizes srv \<noteq> [] \<and> n \<notin> set (sizes srv),
          WidthNotAllowed (case width of None \<Rightarrow> 0 | Some n \<Rightarrow> n)),
         (case quality of None \<Rightarrow> True | Some n \<Rightarrow> n < 1 \<or> n > 100, InvalidQuality)])"

definition first_failure :: "(bool \<times> rejection) list \<Rightarrow> rejection option" where
  "first_failure checks = map_option snd (find fst checks)"

text \<open>A character that is a decimal digit.\<close>

definition decimal :: "char \<Rightarrow> bool" where
  "decimal c = (48 \<le> (of_char c :: nat) \<and> (of_char c :: nat) \<le> 57)"

section \<open>Example collaborators\<close>

text \<open>
  Concrete collaborators for the examples below. \<open>table_URL\<close> lists what the WHATWG
  parser returns on the URLs used: an address without scheme does not parse without a
  base; \<open>/a.jpg\<close> against a base keeps the host of the base; \<open>//evil.com/x.jpg\<close>
  against a base keeps only its scheme. \<open>bytes_of\<close> stands for a hash without
  collisions and \<open>join_slash\<close> for \<open>join\<close> on segments that need no normalising.

  \<open>table_accept\<close> lists what \<open>accept.mediaType\<close> answers on the headers used: the
  first preference when the request has no \<open>Accept\<close> header or the header \<open>*/*\<close>, the
  type itself for \<open>image/webp\<close>, and the empty string for \<open>image/png\<close>, which matches no
  preference.

  \<open>sharp\<close> refuses a width that is not positive and a quality outside 1 to 100, with
  the messages of its parameter check; its output is stood for by the input with the
  configuring calls in front. The only directory is \<open>.next/cache/images\<close>: a file can
  be created directly in it and nowhere else.
\<close>

definition table_URL :: "string \<Rightarrow> string option \<Rightarrow> URL option" where
  "table_URL u base =
    (if u \<in> {''https://example.com/a.jpg'', ''https://example.com/missing.jpg'',
              ''https://example.com/empty.jpg''} then
       Some \<lparr>href = u, hostname = ''example.com''\<rparr>
     else if u = ''https://evil.com/x.jpg'' then
       Some \<lparr>href = ''https://evil.com/x.jpg'', hostname = ''evil.com''\<rparr>
     else if u = ''/a.jpg'' \<and> base = Some ''https://good.com'' then
       Some \<lparr>href = ''https://good.com/a.jpg'', hostname = ''good.com''\<rparr>
     else if u = ''/a.jpg'' \<and> base = Some ''https://evil.com'' then
       Some \<lparr>href = ''https://evil.com/a.jpg'', hostname = ''evil.com''\<rparr>
     else if u = ''//evil.com/x.jpg'' \<and> base = Some ''https://good.com'' then
       Some \<lparr>href = ''https://evil.com/x.jpg'', hostname = ''evil.com''\<rparr>
     else None)"

definition bytes_of :: "string \<Rightarrow> 8 word list" where
  "bytes_of s = map (\<lambda>c. of_nat (of_char c)) s"

definition table_accept :: "string option \<Rightarrow> string list \<Rightarrow> string" where
  "table_accept header preferences =
    (if header \<in> {None, Some ''*/*''} then (case preferences of [] \<Rightarrow> [] | p # ps \<Rightarrow> p)
     else if header = Some ''image/webp'' \<and> ''image/webp'' \<in> set preferences then ''image/webp''
     else [])"

text \<open>\<open>dirname\<close> of \<open>path\<close>, on a path with a separator: what is before the last one.\<close>

definition dirname :: "string \<Rightarrow> string" where
  "dirname p = rev (drop 1 (dropWhile (\<lambda>x. x \<noteq> CHR ''/'') (rev p)))"

definition join_slash :: "string list \<Rightarrow> string" where
  "join_slash xs = foldr (\<lambda>x r. if r = [] then x else x @ ''/'' @ r) xs []"

fun op_tag :: "sharp_op \<Rightarrow> string" where
  "op_tag (Resize n) = ''r'' @ number_string n"
| "op_tag (Webp n) = ''q'' @ number_string n"

fun example_refuses :: "sharp_op \<Rightarrow> string option" where
  "example_refuses (Resize n) =
    (if n \<le> 0
     then Some (''Expected positive integer for width but received '' @ number_string n
                @ '' of type number'')
     else None)"
| "example_refuses (Webp n) =
    (if n < 1 \<or> 100 < n
     then Some (''Expected integer between 1 and 100 for quality but received ''
                @ number_string n @ '' of type number'')
     else None)"

definition example_fetch :: "string \<Rightarrow> string + fetch_response" where
  "example_fetch u =
    (if u = ''https://example.com/missing.jpg''
     then Inr \<lparr>ok = False, status = 404, fetch_body = Some ''Not Found''\<rparr>
     else if u = ''https://example.com/empty.jpg''
     then Inr \<lparr>ok = True, status = 200, fetch_body = None\<rparr>
     else Inr \<lparr>ok = True, status = 200, fetch_body = Some (''image of '' @ u)\<rparr>)"

definition example_collab :: collab where
  "example_collab =
    \<lparr>new_URL = table_URL,
     accept_mediaType = table_accept,
     sha256 = bytes_of,
     path_join = join_slash,
     fetch = example_fetch,
     sharp_refuses = example_refuses,
     sharp_pipe = (\<lambda>ops bytes. Inr (concat (map op_tag ops) @ bytes)),
     writable = (\<lambda>p. dirname p = ''.next/cache/images'')\<rparr>"

definition example_server :: server where
  "example_server = \<lparr>sizes = [], domains = [], distDir = ''.next''\<rparr>"

text \<open>The digest SHA-256 of the 40 bytes \<open>https://example.com/a.jpg64075image/webp\<close>.\<close>

definition scenario_digest :: "8 word list" where
  "scenario_digest =
    [0x3d, 0x70, 0x49, 0x0f, 0x69, 0x35, 0x65, 0x11, 0x28, 0xeb, 0x34, 0xdb, 0x2b, 0xe0, 0xd3, 0xed,
     0x35, 0x28, 0x87, 0xe0, 0x3f, 0x26, 0xad, 0x69, 0x8f, 0x66, 0x1b, 0x16, 0xf1, 0xce, 0xc8, 0xe4]"

definition example_request :: request where
  "example_request =
    \<lparr>query_url = Str ''https://example.com/a.jpg'', query_w = Str ''640'', query_q = Str ''75'',
     header_host = Some ''good.com'', header_accept = Some ''image/webp''\<rparr>"

section \<open>Properties of the runtime functions\<close>

lemma inj_bytes_of: "inj bytes_of"
proof (rule injI)
  fix s t :: string
  assume "bytes_of s = bytes_of t"
  then have "map unat (bytes_of s) = map unat (bytes_of t)"
    by simp
  then have "map (of_char :: char \<Rightarrow> nat) s = map of_char t"
    by (simp add: bytes_of_def unat_of_nat comp_def)
  then show "s = t"
    by (simp add: inj_map_eq_map [OF inj_of_char])
qed

lemma imageOptimizer_reject:
  "validate c srv req = Inl r \<Longrightarrow> imageOptimizer c srv req fs = (Finished r, fs, [])"
  by (simp add: imageOptimizer_def)

lemma resolve_url_Inl:
  "resolve_url c srv req url = Inl r \<Longrightarrow>
     r = reject ''\"url\" parameter is not allowed'' \<or> r = reject ''\"url\" parameter is invalid''"
  by (auto simp: resolve_url_def split: option.splits if_splits)

lemma validate_missing:
  assumes "falsy (query_url req) \<or> falsy (query_w req) \<or> falsy (query_q req)"
  shows "\<exists>msg. validate c srv req = Inl (reject msg)"
  using assms
  by (auto simp: validate_def check_w_q_def split: qval.splits sum.splits dest: resolve_url_Inl)

lemma StrWhiteSpaceChars_nonempty: "[] \<notin> set StrWhiteSpaceChars"
  by (simp add: StrWhiteSpaceChars_def)

lemma white_space_at_0:
  assumes "c \<notin> hd ` set StrWhiteSpaceChars"
  shows "white_space_at (c # s) = 0"
proof -
  have "\<not> prefix p (c # s)" if "p \<in> set StrWhiteSpaceChars" for p
  proof
    assume "prefix p (c # s)"
    moreover from that have "p \<noteq> []"
      using StrWhiteSpaceChars_nonempty by auto
    ultimately have "hd p = c"
      by (cases p) auto
    with that assms show False
      by auto
  qed
  then have "find (\<lambda>p. prefix p (c # s)) StrWhiteSpaceChars = None"
    by (simp add: find_None_iff)
  then show ?thesis
    by (simp add: white_space_at_def)
qed

lemma trim_start_no_space:
  "c \<notin> hd ` set StrWhiteSpaceChars \<Longrightarrow> trim_start (c # s) = c # s"
  by (simp add: trim_start.simps white_space_at_0)

lemma decimal_not_space: "decimal c \<Longrightarrow> c \<notin> hd ` set StrWhiteSpaceChars"
  by (auto simp: decimal_def StrWhiteSpaceChars_def)

lemma minus_not_space: "CHR ''-'' \<notin> hd ` set StrWhiteSpaceChars"
  by (simp add: StrWhiteSpaceChars_def)

lemma decimal_digit_value: "decimal c \<Longrightarrow> digit_value c = Some (of_char c - 48)"
  by (simp add: decimal_def digit_value_def)

lemma decimal_is_digit: "decimal c \<Longrightarrow> is_digit 10 c"
  by (auto simp: is_digit_def decimal_digit_value decimal_def)

lemma decimal_char_of: "d < 10 \<Longrightarrow> decimal (char_of (48 + d :: nat))"
  by (simp add: decimal_def)

lemma nat_digits_decimal: "c \<in> set (nat_digits n) \<Longrightarrow> decimal c"
proof (induction n rule: nat_digits.induct)
  case (1 n)
  then show ?case
    by (subst (asm) (2) nat_digits.simps) (auto simp: decimal_char_of split: if_splits)
qed

lemma nat_digits_nonempty: "nat_digits n \<noteq> []"
  by (subst nat_digits.simps) simp

lemma digits_value_snoc:
  "digits_value R (Z @ [c]) =
     (case digit_value c of None \<Rightarrow> digits_value R Z | Some d \<Rightarrow> digits_value R Z * R + d)"
  by (simp add: digits_value_def split: option.splits)

lemma digits_value_nat_digits: "digits_value 10 (nat_digits n) = n"
proof (induction n rule: nat_digits.induct)
  case (1 n)
  show ?case
  proof (cases "n < 10")
    case True
    then show ?thesis
      by (subst nat_digits.simps) (simp add: digits_value_def decimal_digit_value decimal_char_of)
  next
    case False
    with 1 have "digits_value 10 (nat_digits (n div 10)) = n div 10"
      by simp
    with False show ?thesis
      by (subst nat_digits.simps)
         (simp add: digits_value_snoc decimal_digit_value decimal_char_of)
  qed
qed

lemma parseInt_decimal:
  assumes "Z \<noteq> []" and "\<forall>c \<in> set Z. decimal c"
  shows "parseInt Z = Some (int (digits_value 10 Z))"
    and "parseInt (CHR ''-'' # Z) = Some (- int (digits_value 10 Z))"
proof -
  obtain c s where Z: "Z = c # s"
    using assms(1) by (cases Z) auto
  with assms(2) have c: "decimal c" and s: "\<forall>c \<in> set s. decimal c"
    by auto
  have sign: "hd Z \<noteq> CHR ''-''" "hd Z \<noteq> CHR ''+''"
    using c by (auto simp: decimal_def Z)
  have "\<not> decimal CHR ''x''" "\<not> decimal CHR ''X''"
    by (simp_all add: decimal_def)
  with s have nohex: "take 2 Z \<noteq> ''0x''" "take 2 Z \<noteq> ''0X''"
    unfolding Z by (cases s; auto)+
  have tw: "takeWhile (is_digit 10) Z = Z"
    using assms(2) by (simp add: takeWhile_eq_all_conv decimal_is_digit)
  have t1: "trim_start Z = Z"
    unfolding Z using c by (simp add: trim_start_no_space decimal_not_space)
  have t2: "trim_start (CHR ''-'' # Z) = CHR ''-'' # Z"
    by (simp add: trim_start_no_space minus_not_space)
  show "parseInt Z = Some (int (digits_value 10 Z))"
    unfolding parseInt_def Let_def t1 using sign nohex assms(1) by (simp add: tw)
  show "parseInt (CHR ''-'' # Z) = Some (- int (digits_value 10 Z))"
    unfolding parseInt_def Let_def t2 using nohex assms(1) by (simp add: tw)
qed

lemma parseInt_number_string: "parseInt (number_string n) = Some n"
  by (simp add: number_string_def parseInt_decimal nat_digits_nonempty nat_digits_decimal
      digits_value_nat_digits)

section \<open>The validator and the first failing check\<close>

lemma first_failure_Nil: "first_failure [] = None"
  by (simp add: first_failure_def)

lemma first_failure_Cons:
  "first_failure ((b, r) # checks) = (if b then Some r else first_failure checks)"
  by (simp add: first_failure_def)

lemma check_quality_first_failure:
  "(case check_quality url w q absUrl width of Inl r \<Rightarrow> Some r | Inr v \<Rightarrow> None) =
     map_option (\<lambda>x. reject (message x))
       (first_failure [(case parseInt q of None \<Rightarrow> True | Some n \<Rightarrow> n < 1 \<or> n > 100, InvalidQuality)])"
  by (simp add: check_quality_def first_failure_Cons first_failure_Nil split: option.splits)

lemma check_width_first_failure:
  "(case check_width srv url w q absUrl of Inl r \<Rightarrow> Some r | Inr v \<Rightarrow> None) =
     map_option (\<lambda>x. reject (message x))
       (first_failure
         [(parseInt w = None \<or> parseInt w = Some 0, InvalidWidth),
          (case parseInt w of None \<Rightarrow> False | Some n \<Rightarrow> sizes srv \<noteq> [] \<and> n \<notin> set (sizes srv),
           WidthNotAllowed (case parseInt w of None \<Rightarrow> 0 | Some n \<Rightarrow> n)),
          (case parseInt q of None \<Rightarrow> True | Some n \<Rightarrow> n < 1 \<or> n > 100, InvalidQuality)])"
proof (cases "parseInt w")
  case None
  then show ?thesis
    by (simp add: check_width_def first_failure_Cons)
next
  case (Some n)
  then show ?thesis
    using check_quality_first_failure [of url w q absUrl n]
    by (simp add: check_width_def first_failure_Cons)
qed

lemma check_w_q_first_failure:
  "(case check_w_q srv req url absUrl of Inl r \<Rightarrow> Some r | Inr v \<Rightarrow> None) =
     map_option (\<lambda>x. reject (message x)) (first_failure (drop 4 (checks_in_order c srv req)))"
proof -
  have unfold: "drop 4 (checks_in_order c srv req) =
      (falsy (query_w req), MissingWidth) # (is_array (query_w req), ArrayWidth) #
      (falsy (query_q req), MissingQuality) # (is_array (query_q req), ArrayQuality) #
      drop 8 (checks_in_order c srv req)"
    by (simp add: checks_in_order_def Let_def)
  show ?thesis
  proof (cases "query_w req")
    case Undefined
    then show ?thesis by (simp add: unfold check_w_q_def first_failure_Cons)
  next
    case (Arr ws)
    then show ?thesis by (simp add: unfold check_w_q_def first_failure_Cons)
  next
    case w: (Str w)
    show ?thesis
    proof (cases "query_q req")
      case Undefined
      with w show ?thesis by (simp add: unfold check_w_q_def first_failure_Cons)
    next
      case (Arr qs)
      with w show ?thesis by (simp add: unfold check_w_q_def first_failure_Cons)
    next
      case (Str q)
      have "drop 8 (checks_in_order c srv req) =
         [(parseInt w = None \<or> parseInt w = Some 0, InvalidWidth),
          (case parseInt w of None \<Rightarrow> False | Some n \<Rightarrow> sizes srv \<noteq> [] \<and> n \<notin> set (sizes srv),
           WidthNotAllowed (case parseInt w of None \<Rightarrow> 0 | Some n \<Rightarrow> n)),
          (case parseInt q of None \<Rightarrow> True | Some n \<Rightarrow> n < 1 \<or> n > 100, InvalidQuality)]"
        using w Str by (simp add: checks_in_order_def Let_def)
      with w Str check_width_first_failure [of srv url w q absUrl] show ?thesis
        by (simp add: unfold check_w_q_def first_failure_Cons)
    qed
  qed
qed

lemma validate_first_failure:
  "(case validate c srv req of Inl r \<Rightarrow> Some r | Inr v \<Rightarrow> None) =
     map_option (\<lambda>x. reject (message x)) (first_failure (checks_in_order c srv req))"
proof -
  define url where "url = string_of (query_url req)"
  have unfold: "checks_in_order c srv req =
      (falsy (query_url req), MissingURL) # (is_array (query_url req), ArrayURL) #
      (case new_URL c url None of None \<Rightarrow> False
       | Some u \<Rightarrow> domains srv \<noteq> [] \<and> hostname u \<notin> set (domains srv), DomainNotAllowed) #
      (new_URL c url None = None \<and> new_URL c url (Some (host_base (header_host req))) = None,
       InvalidURL) #
      drop 4 (checks_in_order c srv req)"
    by (simp add: checks_in_order_def Let_def url_def)
  show ?thesis
  proof (cases "query_url req")
    case Undefined
    then show ?thesis by (subst unfold) (simp add: validate_def first_failure_Cons)
  next
    case (Arr us)
    then show ?thesis by (subst unfold) (simp add: validate_def first_failure_Cons)
  next
    case (Str u)
    then have u: "u = url" by (simp add: url_def)
    show ?thesis
    proof (cases "resolve_url c srv req url")
      case (Inl r)
      with Str u show ?thesis
        by (subst unfold)
           (auto simp: validate_def first_failure_Cons resolve_url_def
              split: option.splits if_splits)
    next
      case (Inr absUrl)
      then have pass: "(case new_URL c url None of None \<Rightarrow> False
          | Some u \<Rightarrow> domains srv \<noteq> [] \<and> hostname u \<notin> set (domains srv)) = False"
        "(new_URL c url None = None \<and> new_URL c url (Some (host_base (header_host req))) = None) = False"
        by (auto simp: resolve_url_def split: option.splits if_splits)
      from Str u Inr check_w_q_first_failure [of srv req url absUrl c] show ?thesis
        by (subst unfold) (simp add: validate_def first_failure_Cons pass)
    qed
  qed
qed

lemma example_collab_fields:
  "new_URL example_collab = table_URL"
  "accept_mediaType example_collab = table_accept"
  "sha256 example_collab = bytes_of"
  "path_join example_collab = join_slash"
  "fetch example_collab = example_fetch"
  "sharp_refuses example_collab = example_refuses"
  "sharp_pipe example_collab ops bytes = Inr (concat (map op_tag ops) @ bytes)"
  "writable example_collab p = (dirname p = ''.next/cache/images'')"
  by (simp_all add: example_collab_def)

lemmas example_defs = example_collab_fields example_server_def example_request_def
  table_URL_def table_accept_def example_fetch_def resolve_url_def host_base_def

lemma validate_width_checked:
  assumes "query_url req = Str url" "url \<noteq> []" "resolve_url c srv req url = Inr absUrl"
    and "query_w req = Str w" "w \<noteq> []" "query_q req = Str q" "q \<noteq> []"
  shows "validate c srv req = check_width srv url w q absUrl"
  using assms by (simp add: validate_def check_w_q_def)

lemma parseInt_examples:
  "parseInt ''0'' = Some 0" "parseInt ''1'' = Some 1" "parseInt ''100'' = Some 100"
  "parseInt ''101'' = Some 101" "parseInt ''abc'' = None" "parseInt ''-5'' = Some (- 5)"
  "parseInt ''640'' = Some 640" "parseInt ''75'' = Some 75"
  by code_simp+

lemma number_string_examples:
  "number_string (- 5) = ''-5''" "number_string 0 = ''0''" "number_string 1 = ''1''"
  "number_string 100 = ''100''" "number_string 101 = ''101''" "number_string 404 = ''404''"
  by code_simp+

section \<open>The encoding of the cache key\<close>

lemma base64_alphabet_distinct: "distinct base64_alphabet"
  by (simp add: base64_alphabet_def)

lemma base64_alphabet_length: "length base64_alphabet = 64"
  by (simp add: base64_alphabet_def)

lemma b64_eq_iff: "b64 m = b64 n \<longleftrightarrow> m mod 64 = n mod 64"
  unfolding b64_def
  by (rule nth_eq_iff_index_eq [OF base64_alphabet_distinct])
     (simp_all add: base64_alphabet_length)

lemma b64_not_pad: "b64 n \<noteq> CHR ''=''"
proof -
  have "b64 n \<in> set base64_alphabet"
    unfolding b64_def by (rule nth_mem) (simp add: base64_alphabet_length)
  moreover have "CHR ''='' \<notin> set base64_alphabet"
    by (simp add: base64_alphabet_def)
  ultimately show ?thesis
    by auto
qed

lemma b64_not_pad': "CHR ''='' \<noteq> b64 n"
  using b64_not_pad [of n] by simp

lemma sextet_bounds:
  fixes a b c :: nat
  assumes "a < 256" "b < 256" "c < 256"
  shows "a div 4 < 64" "a mod 4 * 16 + b div 16 < 64" "b mod 16 * 4 + c div 64 < 64"
proof -
  have "a mod 4 < 4" "b div 16 < 16" "b mod 16 < 16" "c div 64 < 4"
    using assms by simp_all
  then show "a mod 4 * 16 + b div 16 < 64" "b mod 16 * 4 + c div 64 < 64"
    by linarith+
  show "a div 4 < 64"
    using assms by simp
qed

lemma decode_first:
  fixes a b :: nat
  shows "b < 256 \<Longrightarrow> (a div 4) * 4 + (a mod 4 * 16 + b div 16) div 16 = a"
  by simp

lemma decode_second:
  fixes a b c :: nat
  shows "b < 256 \<Longrightarrow> c < 256 \<Longrightarrow>
    ((a mod 4 * 16 + b div 16) mod 16) * 16 + (b mod 16 * 4 + c div 64) div 4 = b"
  by (simp add: mod_mult2_eq)

lemma decode_third:
  fixes b c :: nat
  shows "c < 256 \<Longrightarrow> ((b mod 16 * 4 + c div 64) mod 4) * 64 + c mod 64 = c"
  by (simp add: mod_mult2_eq)

lemma sextets3:
  fixes a b c a' b' c' :: nat
  assumes "a < 256" "b < 256" "c < 256" "a' < 256" "b' < 256" "c' < 256"
    and "(a div 4) mod 64 = (a' div 4) mod 64"
    and "(a mod 4 * 16 + b div 16) mod 64 = (a' mod 4 * 16 + b' div 16) mod 64"
    and "(b mod 16 * 4 + c div 64) mod 64 = (b' mod 16 * 4 + c' div 64) mod 64"
    and "c mod 64 = c' mod 64"
  shows "a = a' \<and> b = b' \<and> c = c'"
proof -
  have 1: "a div 4 = a' div 4"
    using assms(7) sextet_bounds(1) [OF assms(1-3)] sextet_bounds(1) [OF assms(4-6)] by simp
  have 2: "a mod 4 * 16 + b div 16 = a' mod 4 * 16 + b' div 16"
    using assms(8) sextet_bounds(2) [OF assms(1-3)] sextet_bounds(2) [OF assms(4-6)] by simp
  have 3: "b mod 16 * 4 + c div 64 = b' mod 16 * 4 + c' div 64"
    using assms(9) sextet_bounds(3) [OF assms(1-3)] sextet_bounds(3) [OF assms(4-6)] by simp
  have "a = (a div 4) * 4 + (a mod 4 * 16 + b div 16) div 16"
    using assms(2) by (simp only: decode_first)
  also have "\<dots> = (a' div 4) * 4 + (a' mod 4 * 16 + b' div 16) div 16"
    by (simp only: 1 2)
  also have "\<dots> = a'"
    using assms(5) by (simp only: decode_first)
  finally have a: "a = a'" .
  have "b = ((a mod 4 * 16 + b div 16) mod 16) * 16 + (b mod 16 * 4 + c div 64) div 4"
    using assms(2,3) by (simp only: decode_second)
  also have "\<dots> = ((a' mod 4 * 16 + b' div 16) mod 16) * 16 + (b' mod 16 * 4 + c' div 64) div 4"
    by (simp only: 2 3)
  also have "\<dots> = b'"
    using assms(5,6) by (simp only: decode_second)
  finally have b: "b = b'" .
  have "c = ((b mod 16 * 4 + c div 64) mod 4) * 64 + c mod 64"
    using assms(3) by (simp only: decode_third)
  also have "\<dots> = ((b' mod 16 * 4 + c' div 64) mod 4) * 64 + c' mod 64"
    by (simp only: 3 assms(10))
  also have "\<dots> = c'"
    using assms(6) by (simp only: decode_third)
  finally have "c = c'" .
  with a b show ?thesis
    by simp
qed

lemma sextets2:
  fixes a b a' b' :: nat
  assumes "a < 256" "b < 256" "a' < 256" "b' < 256"
    and "(a div 4) mod 64 = (a' div 4) mod 64"
    and "(a mod 4 * 16 + b div 16) mod 64 = (a' mod 4 * 16 + b' div 16) mod 64"
    and "(b mod 16 * 4) mod 64 = (b' mod 16 * 4) mod 64"
  shows "a = a' \<and> b = b'"
  using sextets3 [of a b 0 a' b' 0] assms by simp

lemma sextets1:
  fixes a a' :: nat
  assumes "a < 256" "a' < 256"
    and "(a div 4) mod 64 = (a' div 4) mod 64"
    and "(a mod 4 * 16) mod 64 = (a' mod 4 * 16) mod 64"
  shows "a = a'"
  using sextets2 [of a 0 a' 0] assms by simp

lemma base64_nat_nth:
  "base64_nat (a # b # c # r) ! 3 = b64 (c mod 64)"
  "base64_nat [a, b] ! 3 = CHR ''=''"
  "base64_nat [a] ! 3 = CHR ''=''"
  "base64_nat (a # b # c # r) ! 2 = b64 (b mod 16 * 4 + c div 64)"
  "base64_nat [a, b] ! 2 = b64 (b mod 16 * 4)"
  "base64_nat [a] ! 2 = CHR ''=''"
  by simp_all

lemma base64_nat_Nil: "base64_nat xs = [] \<longleftrightarrow> xs = []"
  by (cases xs rule: base64_nat.cases) simp_all

lemma base64_nat_shape:
  assumes "base64_nat xs = base64_nat ys"
  shows "(\<exists>a b c r a' b' c' r'. xs = a # b # c # r \<and> ys = a' # b' # c' # r') \<or>
         (\<exists>a b a' b'. xs = [a, b] \<and> ys = [a', b']) \<or>
         (\<exists>a a'. xs = [a] \<and> ys = [a']) \<or> (xs = [] \<and> ys = [])"
proof -
  from assms have n3: "base64_nat xs ! 3 = base64_nat ys ! 3"
    and n2: "base64_nat xs ! 2 = base64_nat ys ! 2"
    by simp_all
  show ?thesis
  proof (cases xs rule: base64_nat.cases)
    case xs: (1 a b c r)
    show ?thesis
    proof (cases ys rule: base64_nat.cases)
      case (1 a' b' c' r')
      with xs show ?thesis by blast
    next
      case (2 a' b')
      with n3 show ?thesis
        unfolding xs by (simp only: base64_nat_nth b64_not_pad)
    next
      case (3 a')
      with n3 show ?thesis
        unfolding xs by (simp only: base64_nat_nth b64_not_pad)
    next
      case 4
      with assms have "xs = []"
        by (simp only: base64_nat_Nil base64_nat.simps)
      with xs show ?thesis
        by simp
    qed
  next
    case xs: (2 a b)
    show ?thesis
    proof (cases ys rule: base64_nat.cases)
      case (1 a' b' c' r')
      with n3 show ?thesis
        unfolding xs by (simp only: base64_nat_nth b64_not_pad')
    next
      case (2 a' b')
      with xs show ?thesis by blast
    next
      case (3 a')
      with n2 show ?thesis
        unfolding xs by (simp only: base64_nat_nth b64_not_pad)
    next
      case 4
      with assms have "xs = []"
        by (simp only: base64_nat_Nil base64_nat.simps)
      with xs show ?thesis
        by simp
    qed
  next
    case xs: (3 a)
    show ?thesis
    proof (cases ys rule: base64_nat.cases)
      case (1 a' b' c' r')
      with n3 show ?thesis
        unfolding xs by (simp only: base64_nat_nth b64_not_pad')
    next
      case (2 a' b')
      with n2 show ?thesis
        unfolding xs by (simp only: base64_nat_nth b64_not_pad')
    next
      case (3 a')
      with xs show ?thesis by blast
    next
      case 4
      with assms have "xs = []"
        by (simp only: base64_nat_Nil base64_nat.simps)
      with xs show ?thesis
        by simp
    qed
  next
    case 4
    with assms [symmetric] show ?thesis
      by (simp add: base64_nat_Nil)
  qed
qed

lemma base64_nat_inj:
  assumes "\<forall>x \<in> set xs. x < 256" "\<forall>y \<in> set ys. y < 256" "base64_nat xs = base64_nat ys"
  shows "xs = ys"
  using assms
proof (induction xs arbitrary: ys rule: base64_nat.induct)
  case (1 a b c r)
  from base64_nat_shape [OF "1.prems"(3)]
  obtain a' b' c' r' where ys: "ys = a' # b' # c' # r'"
    by auto
  from "1.prems"(3) have eqs: "b64 (a div 4) = b64 (a' div 4)"
    "b64 (a mod 4 * 16 + b div 16) = b64 (a' mod 4 * 16 + b' div 16)"
    "b64 (b mod 16 * 4 + c div 64) = b64 (b' mod 16 * 4 + c' div 64)"
    "b64 (c mod 64) = b64 (c' mod 64)"
    and rest: "base64_nat r = base64_nat r'"
    unfolding ys by (simp_all only: base64_nat.simps list.inject)
  from "1.prems"(1,2) have bounds: "a < 256" "b < 256" "c < 256" "a' < 256" "b' < 256" "c' < 256"
    and tails: "\<forall>x \<in> set r. x < 256" "\<forall>y \<in> set r'. y < 256"
    unfolding ys by simp_all
  note m = eqs [unfolded b64_eq_iff]
  from m(4) have "c mod 64 = c' mod 64"
    by simp
  with bounds m(1-3) have "a = a' \<and> b = b' \<and> c = c'"
    by (rule sextets3)
  moreover have "r = r'"
    using tails rest by (rule "1.IH")
  ultimately show ?case
    unfolding ys by simp
next
  case (2 a b)
  from base64_nat_shape [OF "2.prems"(3)]
  obtain a' b' where ys: "ys = [a', b']"
    by auto
  from "2.prems"(3) have eqs: "b64 (a div 4) = b64 (a' div 4)"
    "b64 (a mod 4 * 16 + b div 16) = b64 (a' mod 4 * 16 + b' div 16)"
    "b64 (b mod 16 * 4) = b64 (b' mod 16 * 4)"
    unfolding ys by (simp_all only: base64_nat.simps list.inject)
  from "2.prems"(1,2) have bounds: "a < 256" "b < 256" "a' < 256" "b' < 256"
    unfolding ys by simp_all
  have "a = a' \<and> b = b'"
    by (rule sextets2 [OF bounds eqs [unfolded b64_eq_iff]])
  then show ?case
    unfolding ys by simp
next
  case (3 a)
  from base64_nat_shape [OF "3.prems"(3)]
  obtain a' where ys: "ys = [a']"
    by auto
  from "3.prems"(3) have eqs: "b64 (a div 4) = b64 (a' div 4)"
    "b64 (a mod 4 * 16) = b64 (a' mod 4 * 16)"
    unfolding ys by (simp_all only: base64_nat.simps list.inject)
  from "3.prems"(1,2) have bounds: "a < 256" "a' < 256"
    unfolding ys by simp_all
  have "a = a'"
    by (rule sextets1 [OF bounds eqs [unfolded b64_eq_iff]])
  then show ?case
    unfolding ys by simp
next
  case 4
  from "4.prems"(3) [symmetric] have "base64_nat ys = []"
    by simp
  then show ?case
    by (simp add: base64_nat_Nil)
qed

lemma base64_inj: "base64 xs = base64 ys \<longleftrightarrow> xs = ys"
proof
  assume "base64 xs = base64 ys"
  moreover have "\<forall>x \<in> set (map unat zs). x < 256" for zs :: "8 word list"
    using unsigned_less [where 'b = 8] by (auto simp del: unsigned_less)
  ultimately have "map unat xs = map unat ys"
    unfolding base64_def by (intro base64_nat_inj) auto
  then show "xs = ys"
    by (simp add: inj_map_eq_map [OF injI [of unat]])
qed simp

lemma cacheKey_digest:
  "cacheKey c url w q mt = cacheKey c url' w' q' mt' \<longleftrightarrow>
     sha256 c (url @ w @ q @ mt) = sha256 c (url' @ w' @ q' @ mt')"
  by (simp add: cacheKey_def hash_input_def base64_inj)

section \<open>Properties of the handler\<close>

lemma validate_Inr:
  assumes "validate c srv req = Inr v"
  shows "\<exists>url w q absUrl.
    query_url req = Str url \<and> url \<noteq> [] \<and> resolve_url c srv req url = Inr absUrl \<and>
    query_w req = Str w \<and> w \<noteq> [] \<and> query_q req = Str q \<and> q \<noteq> [] \<and>
    parseInt w = Some (v_width v) \<and> v_width v \<noteq> 0 \<and>
    (sizes srv = [] \<or> v_width v \<in> set (sizes srv)) \<and>
    parseInt q = Some (v_quality v) \<and> 1 \<le> v_quality v \<and> v_quality v \<le> 100 \<and>
    v_url v = url \<and> v_w v = w \<and> v_q v = q \<and> v_absoluteUrl v = absUrl"
proof -
  from assms obtain url where url: "query_url req = Str url" "url \<noteq> []"
    by (cases "query_url req") (auto simp: validate_def split: if_splits)
  with assms obtain absUrl where abs: "resolve_url c srv req url = Inr absUrl"
    and cwq: "check_w_q srv req url absUrl = Inr v"
    by (cases "resolve_url c srv req url") (auto simp: validate_def)
  from cwq obtain w where w: "query_w req = Str w" "w \<noteq> []"
    by (cases "query_w req") (auto simp: check_w_q_def split: if_splits)
  with cwq obtain q where q: "query_q req = Str q" "q \<noteq> []"
    by (cases "query_q req") (auto simp: check_w_q_def split: if_splits)
  with cwq w have cw: "check_width srv url w q absUrl = Inr v"
    by (simp add: check_w_q_def)
  then obtain n where n: "parseInt w = Some n" "n \<noteq> 0" "sizes srv = [] \<or> n \<in> set (sizes srv)"
    and cq: "check_quality url w q absUrl n = Inr v"
    by (cases "parseInt w") (auto simp: check_width_def split: if_splits)
  from cq obtain k where k: "parseInt q = Some k" "1 \<le> k" "k \<le> 100"
    and v: "v = \<lparr>v_url = url, v_w = w, v_q = q, v_absoluteUrl = absUrl, v_width = n, v_quality = k\<rparr>"
    by (cases "parseInt q") (auto simp: check_quality_def split: if_splits)
  from url abs w q n k show ?thesis
    unfolding v by simp
qed


lemma serve_lookup_first:
  "\<exists>rest. snd (snd (serve c srv mt v fs)) =
     FileExists (cacheFile c srv (cacheKey c (v_url v) (v_w v) (v_q v) mt)) # rest"
  by (simp add: serve_def Let_def split: option.splits sum.splits)

lemma imageOptimizer_valid:
  "validate c srv req = Inr v \<Longrightarrow>
     imageOptimizer c srv req fs =
       serve c srv (accept_mediaType c (header_accept req) MEDIA_TYPES) v fs"
  by (simp add: imageOptimizer_def)

lemma parseInt_more_examples:
  "parseInt ''80'' = Some 80" "parseInt ''23'' = Some 23" "parseInt ''12'' = Some 12"
  "parseInt ''3'' = Some 3" "parseInt ''60'' = Some 60"
  by code_simp+

lemmas validate_defs = validate_def check_w_q_def check_width_def check_quality_def

lemma example_sha256_inj: "inj (sha256 example_collab)"
  using inj_bytes_of by (simp add: example_collab_def)


lemma example_media_types:
  "accept_mediaType example_collab (Some ''image/webp'') MEDIA_TYPES = WEBP"
  "accept_mediaType example_collab None MEDIA_TYPES = WEBP"
  "accept_mediaType example_collab (Some ''image/png'') MEDIA_TYPES = []"
  by (simp_all add: example_collab_fields table_accept_def MEDIA_TYPES_def WEBP_def)

lemma imageOptimizer_lookup_first:
  assumes "validate c srv req = Inr v"
  shows "\<exists>rest. snd (snd (imageOptimizer c srv req fs)) =
     FileExists (cacheFile c srv (cacheKey c (v_url v) (v_w v) (v_q v)
        (accept_mediaType c (header_accept req) MEDIA_TYPES))) # rest"
  using serve_lookup_first by (simp add: imageOptimizer_valid [OF assms])

section \<open>SHA-256 on two messages\<close>

lemma schedule_numeral:
  "schedule (numeral k) W =
    W ! 0 # schedule (pred_numeral k)
      (tl W @ [add32 (add32 (sigma1 (W ! 14)) (W ! 9)) (add32 (sigma0 (W ! 1)) (W ! 0))])"
  by (simp add: numeral_eq_Suc)

lemma replicate_numeral: "replicate (numeral k) x = x # replicate (pred_numeral k) x"
  by (simp add: numeral_eq_Suc)

lemmas sha_defs = K256_def H256_def add32_def Sigma0_def Sigma1_def sigma0_def sigma1_def
  Ch_def Maj_def rotr_def schedule_numeral

text \<open>The test vector \<open>abc\<close> of the standard.\<close>

lemma abc_words:
  "be_words (pad (map of_char ''abc'')) =
    [1633837952, 0, 0, 0, 0, 0, 0, 0, 0, 0, 0, 0, 0, 0, 0, 24]"
  by (simp add: pad_def be64_def be32_def replicate_numeral)

lemma abc_schedule:
  "schedule 64
    [1633837952, 0, 0, 0, 0, 0, 0, 0, 0, 0, 0, 0, 0, 0, 0, 24] =
    [1633837952, 0, 0, 0, 0, 0, 0, 0, 0, 0, 0, 0, 0, 0, 0, 24, 1633837952, 983040, 2108187653,
    1610613702, 1050508152, 25426944, 316456923, 3806512014, 3357629466, 3073800610,
    3854317833, 845560923, 2636160359, 3968280267, 1881225380, 3552024379, 2482346367,
    996719219, 2952069057, 4043988066, 176896406, 1924104970, 2483675966, 610538786,
    2672279444, 4037431130, 1042573945, 657669027, 206005234, 2215296807, 2049510749,
    106709978, 4215179723, 3430291419, 3118885940, 2845390439, 2226839261, 3256115900,
    344409900, 2987358873, 4015503821, 3957764664, 2682456414, 2025622859, 2755645205,
    1720397816, 4004225740, 313650667]"
  by (simp add: sha_defs)

lemma abc_rounds:
  "foldl round256 H256 (zip K256
    [1633837952, 0, 0, 0, 0, 0, 0, 0, 0, 0, 0, 0, 0, 0, 0, 24, 1633837952, 983040, 2108187653,
    1610613702, 1050508152, 25426944, 316456923, 3806512014, 3357629466, 3073800610,
    3854317833, 845560923, 2636160359, 3968280267, 1881225380, 3552024379, 2482346367,
    996719219, 2952069057, 4043988066, 176896406, 1924104970, 2483675966, 610538786,
    2672279444, 4037431130, 1042573945, 657669027, 206005234, 2215296807, 2049510749,
    106709978, 4215179723, 3430291419, 3118885940, 2845390439, 2226839261, 3256115900,
    344409900, 2987358873, 4015503821, 3957764664, 2682456414, 2025622859, 2755645205,
    1720397816, 4004225740, 313650667]) =
    [1349398616, 3550093669, 80891244, 3093179625, 1593118500, 4212265488, 2492278198,
    2518632596]"
  by (simp add: sha_defs)

lemma abc_compress:
  "compress H256
    [1633837952, 0, 0, 0, 0, 0, 0, 0, 0, 0, 0, 0, 0, 0, 0, 24] =
    [3128432319, 2399260650, 1094795486, 1571693091, 2953011619, 2518121116, 3021012833,
    4060091821]"
  unfolding compress_def abc_schedule abc_rounds by (simp add: H256_def add32_def)

lemma SHA256_abc:
  "SHA256 ''abc'' =
    [186, 120, 22, 191, 143, 1, 207, 234, 65, 65, 64, 222, 93, 174, 34, 35, 176, 3, 97, 163,
    150, 23, 122, 156, 180, 16, 255, 97, 242, 0, 21, 173]"
  unfolding SHA256_def abc_words by (simp add: abc_compress be32_def)

text \<open>The bytes hashed for \<open>url=https://example.com/a.jpg&w=640&q=75\<close> and
  \<open>image/webp\<close>.\<close>

lemma scenario_words:
  "be_words (pad (map of_char ''https://example.com/a.jpg64075image/webp'')) =
    [1752462448, 1933193007, 1702388077, 1886151982, 1668246831, 1630431856, 1731605552,
    926247277, 1634166063, 2003133040, 2147483648, 0, 0, 0, 0, 320]"
  by (simp add: pad_def be64_def be32_def replicate_numeral)

lemma scenario_schedule:
  "schedule 64
    [1752462448, 1933193007, 1702388077, 1886151982, 1668246831, 1630431856, 1731605552,
    926247277, 1634166063, 2003133040, 2147483648, 0, 0, 0, 0, 320] =
    [1752462448, 1933193007, 1702388077, 1886151982, 1668246831, 1630431856, 1731605552,
    926247277, 1634166063, 2003133040, 2147483648, 0, 0, 0, 0, 320, 3139748949, 3254834400,
    2880294312, 1797933639, 959881936, 2932125685, 1933972919, 1076886409, 2725788592,
    918082564, 95495620, 2848315022, 1696636444, 3305309798, 492106182, 323942299, 3317062730,
    2754935772, 1278460742, 3270011735, 1837826997, 3941521210, 1286895507, 856607505,
    932282595, 27220797, 918701442, 1915972900, 3477092862, 2697161227, 4127240940, 1031545725,
    2846227700, 3869586521, 2906850825, 1984837939, 3481526138, 4017948086, 3042312717,
    2679184398, 2359329907, 4032369466, 2643474060, 3615928733, 3058236624, 3497609071,
    3969638978, 3638923872]"
  by (simp add: sha_defs)

lemma scenario_rounds:
  "foldl round256 H256 (zip K256
    [1752462448, 1933193007, 1702388077, 1886151982, 1668246831, 1630431856, 1731605552,
    926247277, 1634166063, 2003133040, 2147483648, 0, 0, 0, 0, 320, 3139748949, 3254834400,
    2880294312, 1797933639, 959881936, 2932125685, 1933972919, 1076886409, 2725788592,
    918082564, 95495620, 2848315022, 1696636444, 3305309798, 492106182, 323942299, 3317062730,
    2754935772, 1278460742, 3270011735, 1837826997, 3941521210, 1286895507, 856607505,
    932282595, 27220797, 918701442, 1915972900, 3477092862, 2697161227, 4127240940, 1031545725,
    2846227700, 3869586521, 2906850825, 1984837939, 3481526138, 4017948086, 3042312717,
    2679184398, 2359329907, 4032369466, 2643474060, 3615928733, 3058236624, 3497609071,
    3969638978, 3638923872]) =
    [3546702504, 2915939980, 3967566185, 2257641139, 3826922849, 2753643741, 1877098859,
    2515401675]"
  by (simp add: sha_defs)

lemma scenario_compress:
  "compress H256
    [1752462448, 1933193007, 1702388077, 1886151982, 1668246831, 1630431856, 1731605552,
    926247277, 1634166063, 2003133040, 2147483648, 0, 0, 0, 0, 320] =
    [1030768911, 1765106961, 686503131, 736154605, 891848672, 1059499369, 2405833494, 4056860900]"
  unfolding compress_def scenario_schedule scenario_rounds by (simp add: H256_def add32_def)

lemma SHA256_scenario: "SHA256 ''https://example.com/a.jpg64075image/webp'' = scenario_digest"
  unfolding SHA256_def scenario_words
  by (simp add: scenario_compress be32_def scenario_digest_def)











section \<open>Failures after a cache miss\<close>

text \<open>
  A call that \<open>sharp\<close> refuses makes the handler throw before anything is fetched: the
  only call made is the existence test. This is where a width that passes validation
  and that \<open>resize\<close> refuses ends, such as \<open>w=-5\<close>.
\<close>

lemma refused_call_throws_before_fetch:
  assumes "validate c srv req = Inr v"
    and "mt = accept_mediaType c (header_accept req) MEDIA_TYPES"
    and "file = cacheFile c srv (cacheKey c (v_url v) (v_w v) (v_q v) mt)"
    and "fs file = None"
    and "sharp_error c (transformer mt (v_width v) (v_quality v)) = Some err"
  shows "imageOptimizer c srv req fs = (Thrown err, fs, [FileExists file])"
  using assms by (simp add: imageOptimizer_valid serve_def Let_def)

lemma negative_width_throws_before_fetch:
  "imageOptimizer example_collab example_server (example_request\<lparr>query_w := Str ''-5''\<rparr>)
      Map.empty =
     (Thrown ''Expected positive integer for width but received -5 of type number'', Map.empty,
      [FileExists (cacheFile example_collab example_server
         (cacheKey example_collab ''https://example.com/a.jpg'' ''-5'' ''75'' WEBP))])"
proof -
  let ?req = "example_request\<lparr>query_w := Str ''-5''\<rparr>"
  let ?v = "\<lparr>v_url = ''https://example.com/a.jpg'', v_w = ''-5'', v_q = ''75'',
       v_absoluteUrl = \<lparr>href = ''https://example.com/a.jpg'', hostname = ''example.com''\<rparr>,
       v_width = - 5, v_quality = 75\<rparr>"
  have v: "validate example_collab example_server ?req = Inr ?v"
    by (simp add: validate_defs example_defs parseInt_examples)
  have mt: "WEBP = accept_mediaType example_collab (header_accept ?req) MEDIA_TYPES"
    by (simp add: example_request_def example_media_types)
  have refused: "sharp_error example_collab (transformer WEBP (v_width ?v) (v_quality ?v)) =
      Some ''Expected positive integer for width but received -5 of type number''"
    by (simp add: transformer_def example_collab_fields number_string_examples)
  from refused_call_throws_before_fetch [OF v mt refl _ refused, of Map.empty]
  show ?thesis
    by simp
qed

text \<open>
  When the cache file cannot be created, the write stream is opened and fails, and
  nothing is stored. This is where a cache key with a \<open>/\<close> ends when the directory it
  names below \<open>cache/images\<close> does not exist, as for the request
  \<open>url=https://example.com/a.jpg&w=640&q=75\<close> with \<open>Accept: image/webp\<close> and SHA-256
  as the hash.
\<close>

lemma unwritable_cache_file_not_stored:
  assumes "validate c srv req = Inr v"
    and "mt = accept_mediaType c (header_accept req) MEDIA_TYPES"
    and "file = cacheFile c srv (cacheKey c (v_url v) (v_w v) (v_q v) mt)"
    and "fs file = None"
    and "sharp_error c (transformer mt (v_width v) (v_quality v)) = None"
    and "fetch c (href (v_absoluteUrl v)) = Inr r" and "ok r" and "fetch_body r = Some bytes"
    and "\<not> writable c file"
  shows "imageOptimizer c srv req fs =
    (WriteFailed file, fs, [FileExists file, Fetch (href (v_absoluteUrl v)), CreateWriteStream file])"
  using assms by (simp add: imageOptimizer_valid serve_def Let_def)

lemma scenario_cache_file_not_stored:
  "imageOptimizer (example_collab\<lparr>sha256 := SHA256\<rparr>) example_server example_request Map.empty =
     (WriteFailed ''.next/cache/images/PXBJD2k1ZREo6zTbK+DT7TUoh+A/Jq1pj2YbFvHOyOQ='', Map.empty,
      [FileExists ''.next/cache/images/PXBJD2k1ZREo6zTbK+DT7TUoh+A/Jq1pj2YbFvHOyOQ='',
       Fetch ''https://example.com/a.jpg'',
       CreateWriteStream ''.next/cache/images/PXBJD2k1ZREo6zTbK+DT7TUoh+A/Jq1pj2YbFvHOyOQ=''])"
proof -
  let ?c = "example_collab\<lparr>sha256 := SHA256\<rparr>"
  let ?v = "\<lparr>v_url = ''https://example.com/a.jpg'', v_w = ''640'', v_q = ''75'',
       v_absoluteUrl = \<lparr>href = ''https://example.com/a.jpg'', hostname = ''example.com''\<rparr>,
       v_width = 640, v_quality = 75\<rparr>"
  let ?r = "\<lparr>ok = True, status = 200, fetch_body = Some ''image of https://example.com/a.jpg''\<rparr>"
  let ?key = "''PXBJD2k1ZREo6zTbK+DT7TUoh+A/Jq1pj2YbFvHOyOQ=''"
  have v: "validate ?c example_server example_request = Inr ?v"
    by (simp add: validate_defs example_defs parseInt_examples)
  have mt: "WEBP = accept_mediaType ?c (header_accept example_request) MEDIA_TYPES"
    by (simp add: example_request_def example_media_types)
  have key: "cacheKey ?c (v_url ?v) (v_w ?v) (v_q ?v) WEBP = ?key"
    by (simp add: cacheKey_def hash_input_def WEBP_def SHA256_scenario scenario_digest_def
        base64_def b64_def base64_alphabet_def)
  have path: "cacheFile ?c example_server ?key = ''.next/cache/images/'' @ ?key"
    by (simp add: cacheFile_def example_collab_fields example_server_def join_slash_def)
  have cf: "''.next/cache/images/'' @ ?key =
      cacheFile ?c example_server (cacheKey ?c (v_url ?v) (v_w ?v) (v_q ?v) WEBP)"
    unfolding key path by (rule refl)
  have missing: "Map.empty (''.next/cache/images/'' @ ?key) = None"
    by simp
  have accepted: "sharp_error ?c (transformer WEBP (v_width ?v) (v_quality ?v)) = None"
    by (simp add: transformer_def example_collab_fields)
  have f: "fetch ?c (href (v_absoluteUrl ?v)) = Inr ?r" "ok ?r"
    "fetch_body ?r = Some ''image of https://example.com/a.jpg''"
    by (simp_all add: example_collab_fields example_fetch_def)
  have w: "\<not> writable ?c (''.next/cache/images/'' @ ?key)"
    by (simp add: example_collab_fields dirname_def)
  from unwritable_cache_file_not_stored [OF v mt cf missing accepted f w]
  show ?thesis
    by simp
qed

section \<open>Claims\<close>

text \<open>
  C7. A request that misses \<open>url\<close>, \<open>w\<close> or \<open>q\<close> (the value is absent or empty) gets
  status 400 with the message of its first failing check, the file system is left as it
  was and no call is made on the file system or the network. The message is
  \<open>"url" parameter is required\<close> when \<open>url\<close> is missing, the message for \<open>w\<close> when
  \<open>url\<close> resolves and \<open>w\<close> is missing, and the message for \<open>q\<close> when \<open>url\<close> resolves,
  \<open>w\<close> is a single value and \<open>q\<close> is missing.
\<close>

theorem missing_parameter_rejected:
  assumes "falsy (query_url req) \<or> falsy (query_w req) \<or> falsy (query_q req)"
  shows "(\<exists>r. first_failure (checks_in_order c srv req) = Some r \<and>
            imageOptimizer c srv req fs =
              (Finished \<lparr>statusCode = 400, body = message r\<rparr>, fs, [])) \<and>
         (falsy (query_url req) \<longrightarrow>
            imageOptimizer c srv req fs =
              (Finished \<lparr>statusCode = 400, body = ''\"url\" parameter is required''\<rparr>, fs, [])) \<and>
         (\<forall>url absUrl. query_url req = Str url \<and> url \<noteq> [] \<and>
              resolve_url c srv req url = Inr absUrl \<and> falsy (query_w req) \<longrightarrow>
            imageOptimizer c srv req fs =
              (Finished \<lparr>statusCode = 400, body = ''\"w\" parameter (width) is required''\<rparr>, fs, [])) \<and>
         (\<forall>url absUrl w. query_url req = Str url \<and> url \<noteq> [] \<and>
              resolve_url c srv req url = Inr absUrl \<and> query_w req = Str w \<and> w \<noteq> [] \<and>
              falsy (query_q req) \<longrightarrow>
            imageOptimizer c srv req fs =
              (Finished \<lparr>statusCode = 400, body = ''\"q\" parameter (quality) is required''\<rparr>, fs, []))"
proof (intro conjI allI impI)
  from assms obtain msg where "validate c srv req = Inl (reject msg)"
    using validate_missing by blast
  moreover from this validate_first_failure [of c srv req]
  obtain r where "first_failure (checks_in_order c srv req) = Some r"
    and "reject msg = reject (message r)"
    by (cases "first_failure (checks_in_order c srv req)") auto
  ultimately show "\<exists>r. first_failure (checks_in_order c srv req) = Some r \<and>
      imageOptimizer c srv req fs =
        (Finished \<lparr>statusCode = 400, body = message r\<rparr>, fs, [])"
    by (auto simp: imageOptimizer_reject reject_def)
next
  assume "falsy (query_url req)"
  then have "validate c srv req = Inl (reject ''\"url\" parameter is required'')"
    by (simp add: validate_def)
  then show "imageOptimizer c srv req fs =
      (Finished \<lparr>statusCode = 400, body = ''\"url\" parameter is required''\<rparr>, fs, [])"
    by (simp add: imageOptimizer_reject reject_def)
next
  fix url absUrl
  assume "query_url req = Str url \<and> url \<noteq> [] \<and>
      resolve_url c srv req url = Inr absUrl \<and> falsy (query_w req)"
  then have "validate c srv req = Inl (reject ''\"w\" parameter (width) is required'')"
    by (simp add: validate_def check_w_q_def)
  then show "imageOptimizer c srv req fs =
      (Finished \<lparr>statusCode = 400, body = ''\"w\" parameter (width) is required''\<rparr>, fs, [])"
    by (simp add: imageOptimizer_reject reject_def)
next
  fix url absUrl w
  assume "query_url req = Str url \<and> url \<noteq> [] \<and>
      resolve_url c srv req url = Inr absUrl \<and> query_w req = Str w \<and> w \<noteq> [] \<and>
      falsy (query_q req)"
  then have "validate c srv req = Inl (reject ''\"q\" parameter (quality) is required'')"
    by (simp add: validate_def check_w_q_def)
  then show "imageOptimizer c srv req fs =
      (Finished \<lparr>statusCode = 400, body = ''\"q\" parameter (quality) is required''\<rparr>, fs, [])"
    by (simp add: imageOptimizer_reject reject_def)
qed

theorem missing_parameter_rejected_witness:
  "falsy (query_w (example_request\<lparr>query_w := Undefined\<rparr>)) \<and>
   imageOptimizer example_collab example_server (example_request\<lparr>query_w := Undefined\<rparr>) Map.empty =
     (Finished \<lparr>statusCode = 400, body = ''\"w\" parameter (width) is required''\<rparr>, Map.empty, [])"
proof -
  let ?req = "example_request\<lparr>query_w := Undefined\<rparr>"
  have missing: "falsy (query_w ?req)"
    by simp
  have url: "query_url ?req = Str ''https://example.com/a.jpg'' \<and> ''https://example.com/a.jpg'' \<noteq> [] \<and>
      resolve_url example_collab example_server ?req ''https://example.com/a.jpg'' =
        Inr \<lparr>href = ''https://example.com/a.jpg'', hostname = ''example.com''\<rparr> \<and>
      falsy (query_w ?req)"
    by (simp add: example_defs)
  from missing have "falsy (query_url ?req) \<or> falsy (query_w ?req) \<or> falsy (query_q ?req)"
    by simp
  from missing_parameter_rejected [OF this, of example_collab example_server Map.empty] url missing
  show ?thesis
    by blast
qed

text \<open>
  C6 (as amended). Validation stops at the first failing check in this order: presence and
  arity of \<open>url\<close>, parse and domain of \<open>url\<close>, presence and arity of \<open>w\<close>, presence
  and arity of \<open>q\<close>, numeric parse of \<open>w\<close>, allow-list of \<open>w\<close>, numeric parse and
  bounds of \<open>q\<close>. The presence and arity of \<open>q\<close> are checked before \<open>w\<close> is parsed:
  a request with a non-numeric \<open>w\<close> and a missing \<open>q\<close> gets the message that \<open>q\<close> is
  required.
\<close>

theorem validator_check_order:
  "(case validate c srv req of Inl r \<Rightarrow> Some r | Inr v \<Rightarrow> None) =
     map_option (\<lambda>x. reject (message x)) (first_failure (checks_in_order c srv req)) \<and>
   (\<forall>url absUrl w. query_url req = Str url \<and> url \<noteq> [] \<and>
        resolve_url c srv req url = Inr absUrl \<and> query_w req = Str w \<and> w \<noteq> [] \<and>
        parseInt w = None \<and> falsy (query_q req) \<longrightarrow>
      imageOptimizer c srv req fs =
        (Finished \<lparr>statusCode = 400, body = ''\"q\" parameter (quality) is required''\<rparr>, fs, []))"
proof (intro conjI allI impI)
  show "(case validate c srv req of Inl r \<Rightarrow> Some r | Inr v \<Rightarrow> None) =
     map_option (\<lambda>x. reject (message x)) (first_failure (checks_in_order c srv req))"
    by (rule validate_first_failure)
next
  fix url absUrl w
  assume "query_url req = Str url \<and> url \<noteq> [] \<and>
        resolve_url c srv req url = Inr absUrl \<and> query_w req = Str w \<and> w \<noteq> [] \<and>
        parseInt w = None \<and> falsy (query_q req)"
  then have "validate c srv req = Inl (reject ''\"q\" parameter (quality) is required'')"
    by (simp add: validate_def check_w_q_def)
  then show "imageOptimizer c srv req fs =
        (Finished \<lparr>statusCode = 400, body = ''\"q\" parameter (quality) is required''\<rparr>, fs, [])"
    by (simp add: imageOptimizer_reject reject_def)
qed

theorem validator_check_order_witness:
  "parseInt ''abc'' = None \<and>
   falsy (query_q (example_request\<lparr>query_w := Str ''abc'', query_q := Undefined\<rparr>)) \<and>
   imageOptimizer example_collab example_server
       (example_request\<lparr>query_w := Str ''abc'', query_q := Undefined\<rparr>) Map.empty =
     (Finished \<lparr>statusCode = 400, body = ''\"q\" parameter (quality) is required''\<rparr>, Map.empty, [])"
proof -
  let ?req = "example_request\<lparr>query_w := Str ''abc'', query_q := Undefined\<rparr>"
  have "query_url ?req = Str ''https://example.com/a.jpg'' \<and> ''https://example.com/a.jpg'' \<noteq> [] \<and>
      resolve_url example_collab example_server ?req ''https://example.com/a.jpg'' =
        Inr \<lparr>href = ''https://example.com/a.jpg'', hostname = ''example.com''\<rparr> \<and>
      query_w ?req = Str ''abc'' \<and> ''abc'' \<noteq> [] \<and> parseInt ''abc'' = None \<and>
      falsy (query_q ?req)"
    by (simp add: example_defs parseInt_examples)
  with validator_check_order [of example_collab example_server ?req Map.empty]
  show ?thesis
    by blast
qed

text \<open>
  C6 as stated fails: with \<open>w=abc\<close> and no \<open>q\<close> the message is the one for the missing
  \<open>q\<close>, not the one for the width.
\<close>

theorem width_before_quality_counterexample:
  "fst (imageOptimizer example_collab example_server
       (example_request\<lparr>query_w := Str ''abc'', query_q := Undefined\<rparr>) Map.empty) =
     Finished \<lparr>statusCode = 400, body = ''\"q\" parameter (quality) is required''\<rparr> \<and>
   fst (imageOptimizer example_collab example_server
       (example_request\<lparr>query_w := Str ''abc'', query_q := Undefined\<rparr>) Map.empty) \<noteq>
     Finished \<lparr>statusCode = 400,
       body = ''\"w\" parameter (width) must be a number greater than 0''\<rparr>"
  by (simp add: imageOptimizer_def validate_def check_w_q_def example_defs reject_def)

text \<open>
  C5. The claim asks that every negative width is rejected. The handler tests
  \<open>!width || isNaN(width)\<close>, which a negative number passes: with no width allow-list,
  a request whose \<open>w\<close> is the numeral of a negative integer passes validation with
  that width, although the message of the check reads "must be a number greater than 0".
\<close>

theorem negative_width_accepted:
  assumes "query_url req = Str url" "url \<noteq> []" "resolve_url c srv req url = Inr absUrl"
    and "query_w req = Str (number_string n)" "n < 0" "sizes srv = []"
    and "query_q req = Str q" "q \<noteq> []" "parseInt q = Some quality" "1 \<le> quality" "quality \<le> 100"
  shows "validate c srv req =
    Inr \<lparr>v_url = url, v_w = number_string n, v_q = q, v_absoluteUrl = absUrl,
         v_width = n, v_quality = quality\<rparr>"
proof -
  have "number_string n \<noteq> []"
    using assms(5) by (simp add: number_string_def)
  with assms have "validate c srv req = check_width srv url (number_string n) q absUrl"
    by (simp add: validate_width_checked)
  with assms show ?thesis
    by (simp add: check_width_def check_quality_def parseInt_number_string)
qed

theorem negative_width_accepted_witness:
  "number_string (- 5) = ''-5'' \<and>
   validate example_collab example_server (example_request\<lparr>query_w := Str ''-5''\<rparr>) =
    Inr \<lparr>v_url = ''https://example.com/a.jpg'', v_w = ''-5'', v_q = ''75'',
         v_absoluteUrl = \<lparr>href = ''https://example.com/a.jpg'', hostname = ''example.com''\<rparr>,
         v_width = - 5, v_quality = 75\<rparr>"
proof -
  let ?req = "example_request\<lparr>query_w := Str ''-5''\<rparr>"
  have n: "number_string (- 5) = ''-5''"
    by (rule number_string_examples)
  have "validate example_collab example_server ?req =
      Inr \<lparr>v_url = ''https://example.com/a.jpg'', v_w = number_string (- 5), v_q = ''75'',
         v_absoluteUrl = \<lparr>href = ''https://example.com/a.jpg'', hostname = ''example.com''\<rparr>,
         v_width = - 5, v_quality = 75\<rparr>"
    by (rule negative_width_accepted) (simp_all add: example_defs n parseInt_examples)
  with n show ?thesis
    by simp
qed

text \<open>
  C8. Once the checks on \<open>url\<close> and \<open>w\<close> have passed and \<open>q\<close> is a single non-empty value,
  the request is accepted exactly when \<open>parseInt(q)\<close> is an integer from 1 to 100, and
  is otherwise rejected with status 400 and the quality message. For decimal numerals this
  is: accepted if and only if the integer is in the range; \<open>q=0\<close> and \<open>q=101\<close> are
  rejected without any call, \<open>q=1\<close> and \<open>q=100\<close> are accepted.
\<close>

theorem quality_accepted_from_1_to_100:
  assumes "query_url req = Str url" "url \<noteq> []" "resolve_url c srv req url = Inr absUrl"
    and "query_w req = Str w" "w \<noteq> []" "parseInt w = Some width" "width \<noteq> 0"
    and "sizes srv = [] \<or> width \<in> set (sizes srv)"
    and "query_q req = Str q" "q \<noteq> []"
  shows "validate c srv req =
      (case parseInt q of
         None \<Rightarrow> Inl \<lparr>statusCode = 400,
                   body = ''\"q\" parameter (quality) must be a number between 1 and 100''\<rparr>
       | Some n \<Rightarrow>
           if 1 \<le> n \<and> n \<le> 100
           then Inr \<lparr>v_url = url, v_w = w, v_q = q, v_absoluteUrl = absUrl,
                     v_width = width, v_quality = n\<rparr>
           else Inl \<lparr>statusCode = 400,
                  body = ''\"q\" parameter (quality) must be a number between 1 and 100''\<rparr>) \<and>
    (\<forall>n. q = number_string n \<longrightarrow> ((\<exists>v. validate c srv req = Inr v) \<longleftrightarrow> 1 \<le> n \<and> n \<le> 100)) \<and>
    (q = ''0'' \<or> q = ''101'' \<longrightarrow>
       imageOptimizer c srv req fs =
        (Finished \<lparr>statusCode = 400,
           body = ''\"q\" parameter (quality) must be a number between 1 and 100''\<rparr>, fs, [])) \<and>
    (q = ''1'' \<longrightarrow> validate c srv req =
        Inr \<lparr>v_url = url, v_w = w, v_q = q, v_absoluteUrl = absUrl, v_width = width, v_quality = 1\<rparr>) \<and>
    (q = ''100'' \<longrightarrow> validate c srv req =
        Inr \<lparr>v_url = url, v_w = w, v_q = q, v_absoluteUrl = absUrl, v_width = width, v_quality = 100\<rparr>)"
proof -
  from assms have v: "validate c srv req = check_quality url w q absUrl width"
    by (auto simp: validate_width_checked check_width_def)
  have main: "validate c srv req =
      (case parseInt q of
         None \<Rightarrow> Inl \<lparr>statusCode = 400,
                   body = ''\"q\" parameter (quality) must be a number between 1 and 100''\<rparr>
       | Some n \<Rightarrow>
           if 1 \<le> n \<and> n \<le> 100
           then Inr \<lparr>v_url = url, v_w = w, v_q = q, v_absoluteUrl = absUrl,
                     v_width = width, v_quality = n\<rparr>
           else Inl \<lparr>statusCode = 400,
                  body = ''\"q\" parameter (quality) must be a number between 1 and 100''\<rparr>)"
    unfolding v by (auto simp: check_quality_def reject_def split: option.splits)
  have dec: "(\<exists>v. validate c srv req = Inr v) \<longleftrightarrow> 1 \<le> n \<and> n \<le> 100" if "q = number_string n" for n
    unfolding main using that by (simp add: parseInt_number_string)
  have lo: "imageOptimizer c srv req fs =
        (Finished \<lparr>statusCode = 400,
           body = ''\"q\" parameter (quality) must be a number between 1 and 100''\<rparr>, fs, [])"
    if "q = ''0'' \<or> q = ''101''"
    using that main by (auto simp: parseInt_examples imageOptimizer_reject)
  have one: "validate c srv req =
        Inr \<lparr>v_url = url, v_w = w, v_q = q, v_absoluteUrl = absUrl, v_width = width, v_quality = 1\<rparr>"
    if "q = ''1''"
    unfolding main using that by (simp add: parseInt_examples)
  have hundred: "validate c srv req =
        Inr \<lparr>v_url = url, v_w = w, v_q = q, v_absoluteUrl = absUrl, v_width = width, v_quality = 100\<rparr>"
    if "q = ''100''"
    unfolding main using that by (simp add: parseInt_examples)
  from main dec lo one hundred show ?thesis
    by blast
qed

theorem quality_accepted_from_1_to_100_witness:
  "imageOptimizer example_collab example_server (example_request\<lparr>query_q := Str ''0''\<rparr>) Map.empty =
     (Finished \<lparr>statusCode = 400,
        body = ''\"q\" parameter (quality) must be a number between 1 and 100''\<rparr>, Map.empty, []) \<and>
   imageOptimizer example_collab example_server (example_request\<lparr>query_q := Str ''101''\<rparr>) Map.empty =
     (Finished \<lparr>statusCode = 400,
        body = ''\"q\" parameter (quality) must be a number between 1 and 100''\<rparr>, Map.empty, []) \<and>
   validate example_collab example_server (example_request\<lparr>query_q := Str ''1''\<rparr>) =
     Inr \<lparr>v_url = ''https://example.com/a.jpg'', v_w = ''640'', v_q = ''1'',
          v_absoluteUrl = \<lparr>href = ''https://example.com/a.jpg'', hostname = ''example.com''\<rparr>,
          v_width = 640, v_quality = 1\<rparr> \<and>
   validate example_collab example_server (example_request\<lparr>query_q := Str ''100''\<rparr>) =
     Inr \<lparr>v_url = ''https://example.com/a.jpg'', v_w = ''640'', v_q = ''100'',
          v_absoluteUrl = \<lparr>href = ''https://example.com/a.jpg'', hostname = ''example.com''\<rparr>,
          v_width = 640, v_quality = 100\<rparr>"
proof -
  let ?req = "\<lambda>q. example_request\<lparr>query_q := Str q\<rparr>"
  let ?abs = "\<lparr>href = ''https://example.com/a.jpg'', hostname = ''example.com''\<rparr>"
  have url: "query_url (?req q) = Str ''https://example.com/a.jpg''"
      "''https://example.com/a.jpg'' \<noteq> []"
      "resolve_url example_collab example_server (?req q) ''https://example.com/a.jpg'' = Inr ?abs"
    and w: "query_w (?req q) = Str ''640''" "''640'' \<noteq> []" "parseInt ''640'' = Some 640"
      "(640 :: int) \<noteq> 0" "sizes example_server = [] \<or> 640 \<in> set (sizes example_server)"
    and q: "query_q (?req q) = Str q" for q
    by (simp_all add: example_defs parseInt_examples)
  note inst = quality_accepted_from_1_to_100 [OF url w q, of _ Map.empty]
  have "''0'' \<noteq> []" "''101'' \<noteq> []" "''1'' \<noteq> []" "''100'' \<noteq> []"
    by simp_all
  with inst [of "''0''"] inst [of "''101''"] inst [of "''1''"] inst [of "''100''"]
  show ?thesis
    by blast
qed

text \<open>
  C9. When a request passes validation, its cache file does not exist and the fetch is
  reached (\<open>sharp\<close> has accepted the calls that configure the transformer, which come
  before the fetch), and the upstream answers with a response that is not \<open>ok\<close> or has
  no body, the handler throws an error whose message names the status (or the missing
  body) and the fetched address. The file system is left as it was: the only calls are
  the existence test and the fetch, and no write stream is opened.
\<close>

theorem fetch_failure_throws:
  assumes "validate c srv req = Inr v"
    and "mt = accept_mediaType c (header_accept req) MEDIA_TYPES"
    and "file = cacheFile c srv (cacheKey c (v_url v) (v_w v) (v_q v) mt)"
    and "fs file = None"
    and "sharp_error c (transformer mt (v_width v) (v_quality v)) = None"
    and "fetch c (href (v_absoluteUrl v)) = Inr r"
    and "\<not> ok r \<or> fetch_body r = None"
  shows "imageOptimizer c srv req fs =
     (Thrown (if \<not> ok r
              then ''Unexpected status '' @ number_string (int (status r)) @ '' from ''
                   @ href (v_absoluteUrl v)
              else ''No body from '' @ href (v_absoluteUrl v)),
      fs, [FileExists file, Fetch (href (v_absoluteUrl v))])"
  using assms by (auto simp: imageOptimizer_valid serve_def Let_def)

theorem fetch_failure_throws_witness:
  "imageOptimizer example_collab example_server
      (example_request\<lparr>query_url := Str ''https://example.com/missing.jpg''\<rparr>) Map.empty =
     (Thrown ''Unexpected status 404 from https://example.com/missing.jpg'', Map.empty,
      [FileExists (cacheFile example_collab example_server
         (cacheKey example_collab ''https://example.com/missing.jpg'' ''640'' ''75'' WEBP)),
       Fetch ''https://example.com/missing.jpg'']) \<and>
   imageOptimizer example_collab example_server
      (example_request\<lparr>query_url := Str ''https://example.com/empty.jpg''\<rparr>) Map.empty =
     (Thrown ''No body from https://example.com/empty.jpg'', Map.empty,
      [FileExists (cacheFile example_collab example_server
         (cacheKey example_collab ''https://example.com/empty.jpg'' ''640'' ''75'' WEBP)),
       Fetch ''https://example.com/empty.jpg''])"
proof -
  let ?req = "\<lambda>u. example_request\<lparr>query_url := Str u\<rparr>"
  let ?v = "\<lambda>u. \<lparr>v_url = u, v_w = ''640'', v_q = ''75'',
       v_absoluteUrl = \<lparr>href = u, hostname = ''example.com''\<rparr>, v_width = 640, v_quality = 75\<rparr>"
  let ?r1 = "\<lparr>ok = False, status = 404, fetch_body = Some ''Not Found''\<rparr>"
  let ?r2 = "\<lparr>ok = True, status = 200, fetch_body = None\<rparr>"
  have mt: "WEBP = accept_mediaType example_collab (header_accept (?req u)) MEDIA_TYPES" for u
    by (simp add: example_request_def example_media_types)
  have v1: "validate example_collab example_server (?req ''https://example.com/missing.jpg'') =
      Inr (?v ''https://example.com/missing.jpg'')"
    by (simp add: validate_defs example_defs parseInt_examples)
  have v2: "validate example_collab example_server (?req ''https://example.com/empty.jpg'') =
      Inr (?v ''https://example.com/empty.jpg'')"
    by (simp add: validate_defs example_defs parseInt_examples)
  have t: "sharp_error example_collab (transformer WEBP (v_width (?v u)) (v_quality (?v u))) = None"
    for u
    by (simp add: transformer_def example_collab_fields)
  have f1: "fetch example_collab (href (v_absoluteUrl (?v ''https://example.com/missing.jpg''))) =
      Inr ?r1"
    by (simp add: example_collab_fields example_fetch_def)
  have f2: "fetch example_collab (href (v_absoluteUrl (?v ''https://example.com/empty.jpg''))) =
      Inr ?r2"
    by (simp add: example_collab_fields example_fetch_def)
  have "\<not> ok ?r1 \<or> fetch_body ?r1 = None" "\<not> ok ?r2 \<or> fetch_body ?r2 = None"
    by simp_all
  from fetch_failure_throws [OF v1 mt refl _ t f1 this(1), of Map.empty]
    fetch_failure_throws [OF v2 mt refl _ t f2 this(2), of Map.empty]
  show ?thesis
    by (simp add: number_string_examples)
qed

text \<open>
  C3 (as amended). The cache key is a function of the four strings, so equal tuples give
  equal keys. Two tuples give the same key exactly when the digests of the concatenations
  \<open>url @ w @ q @ mediaType\<close> are the same: the four \<open>hash.update\<close> calls feed the
  strings to the hash with nothing between them, and the encoding of the digest loses
  nothing. With a hash without collisions the keys are the same exactly when the
  concatenations are.
\<close>

theorem cache_key_of_concatenation:
  "(cacheKey c url w q mt = cacheKey c url' w' q' mt' \<longleftrightarrow>
      sha256 c (url @ w @ q @ mt) = sha256 c (url' @ w' @ q' @ mt')) \<and>
   (inj (sha256 c) \<longrightarrow>
      (cacheKey c url w q mt = cacheKey c url' w' q' mt' \<longleftrightarrow>
       url @ w @ q @ mt = url' @ w' @ q' @ mt'))"
  by (simp add: cacheKey_digest inj_eq)

theorem cache_key_of_concatenation_witness:
  "inj (sha256 example_collab) \<and>
   cacheKey example_collab ''/a.jpg'' ''1'' ''23'' WEBP \<noteq>
   cacheKey example_collab ''/a.jpg'' ''1'' ''24'' WEBP"
  using cache_key_of_concatenation
    [of example_collab "''/a.jpg''" "''1''" "''23''" WEBP "''/a.jpg''" "''1''" "''24''" WEBP,
     THEN conjunct2, THEN mp, OF example_sha256_inj]
    example_sha256_inj
  by simp

text \<open>
  C3 as stated fails: \<open>w = 1, q = 23\<close> and \<open>w = 12, q = 3\<close> with the same \<open>url\<close>
  are two different tuples, both pass validation, and both hash the bytes
  \<open>/a.jpg123image/webp\<close>.
\<close>

theorem distinct_tuples_same_key_counterexample:
  "(''/a.jpg'', ''1'', ''23'', WEBP) \<noteq> (''/a.jpg'', ''12'', ''3'', WEBP) \<and>
   inj (sha256 example_collab) \<and>
   cacheKey example_collab ''/a.jpg'' ''1'' ''23'' WEBP =
   cacheKey example_collab ''/a.jpg'' ''12'' ''3'' WEBP \<and>
   validate example_collab example_server
       (example_request\<lparr>query_url := Str ''/a.jpg'', query_w := Str ''1'', query_q := Str ''23''\<rparr>) =
     Inr \<lparr>v_url = ''/a.jpg'', v_w = ''1'', v_q = ''23'',
          v_absoluteUrl = \<lparr>href = ''https://good.com/a.jpg'', hostname = ''good.com''\<rparr>,
          v_width = 1, v_quality = 23\<rparr> \<and>
   validate example_collab example_server
       (example_request\<lparr>query_url := Str ''/a.jpg'', query_w := Str ''12'', query_q := Str ''3''\<rparr>) =
     Inr \<lparr>v_url = ''/a.jpg'', v_w = ''12'', v_q = ''3'',
          v_absoluteUrl = \<lparr>href = ''https://good.com/a.jpg'', hostname = ''good.com''\<rparr>,
          v_width = 12, v_quality = 3\<rparr>"
  using inj_bytes_of
  by (simp add: cacheKey_def hash_input_def validate_defs example_defs
      parseInt_examples parseInt_more_examples)



text \<open>
  C2 (as amended). The cache key is derived from the \<open>url\<close> parameter as it was sent,
  not from the resolved address: two requests that differ only in the Host header and
  both pass validation derive the same cache key and look up the same cache file, also
  when the resolved addresses differ.
\<close>

theorem cache_key_ignores_host:
  assumes "validate c srv req = Inr v"
    and "validate c srv (req\<lparr>header_host := h\<rparr>) = Inr v'"
    and "mt = accept_mediaType c (header_accept req) MEDIA_TYPES"
  shows "cacheKey c (v_url v') (v_w v') (v_q v') mt = cacheKey c (v_url v) (v_w v) (v_q v) mt \<and>
    (\<exists>rest rest'.
       snd (snd (imageOptimizer c srv req fs)) =
         FileExists (cacheFile c srv (cacheKey c (v_url v) (v_w v) (v_q v) mt)) # rest \<and>
       snd (snd (imageOptimizer c srv (req\<lparr>header_host := h\<rparr>) fs')) =
         FileExists (cacheFile c srv (cacheKey c (v_url v) (v_w v) (v_q v) mt)) # rest')"
proof -
  from validate_Inr [OF assms(1)] validate_Inr [OF assms(2)]
  have same: "v_url v' = v_url v" "v_w v' = v_w v" "v_q v' = v_q v"
    by auto
  from imageOptimizer_lookup_first [OF assms(1), of fs]
    imageOptimizer_lookup_first [OF assms(2), of fs'] same assms(3)
  show ?thesis
    by simp
qed

theorem cache_key_ignores_host_witness:
  "validate example_collab example_server (example_request\<lparr>query_url := Str ''/a.jpg''\<rparr>) =
     Inr \<lparr>v_url = ''/a.jpg'', v_w = ''640'', v_q = ''75'',
          v_absoluteUrl = \<lparr>href = ''https://good.com/a.jpg'', hostname = ''good.com''\<rparr>,
          v_width = 640, v_quality = 75\<rparr> \<and>
   validate example_collab example_server
       (example_request\<lparr>query_url := Str ''/a.jpg'', header_host := Some ''evil.com''\<rparr>) =
     Inr \<lparr>v_url = ''/a.jpg'', v_w = ''640'', v_q = ''75'',
          v_absoluteUrl = \<lparr>href = ''https://evil.com/a.jpg'', hostname = ''evil.com''\<rparr>,
          v_width = 640, v_quality = 75\<rparr> \<and>
   hd (snd (snd (imageOptimizer example_collab example_server
       (example_request\<lparr>query_url := Str ''/a.jpg''\<rparr>) Map.empty))) =
   hd (snd (snd (imageOptimizer example_collab example_server
       (example_request\<lparr>query_url := Str ''/a.jpg'', header_host := Some ''evil.com''\<rparr>) Map.empty)))"
proof -
  let ?req = "example_request\<lparr>query_url := Str ''/a.jpg''\<rparr>"
  have v: "validate example_collab example_server ?req =
     Inr \<lparr>v_url = ''/a.jpg'', v_w = ''640'', v_q = ''75'',
          v_absoluteUrl = \<lparr>href = ''https://good.com/a.jpg'', hostname = ''good.com''\<rparr>,
          v_width = 640, v_quality = 75\<rparr>"
    by (simp add: validate_defs example_defs parseInt_examples)
  have v': "validate example_collab example_server (?req\<lparr>header_host := Some ''evil.com''\<rparr>) =
     Inr \<lparr>v_url = ''/a.jpg'', v_w = ''640'', v_q = ''75'',
          v_absoluteUrl = \<lparr>href = ''https://evil.com/a.jpg'', hostname = ''evil.com''\<rparr>,
          v_width = 640, v_quality = 75\<rparr>"
    by (simp add: validate_defs example_defs parseInt_examples)
  from cache_key_ignores_host [OF v v' refl, of Map.empty Map.empty] v v'
  show ?thesis
    by auto
qed

text \<open>
  C2 as stated fails: \<open>url=/a.jpg\<close> resolves to \<open>https://good.com/a.jpg\<close> with
  one Host header and to \<open>https://evil.com/a.jpg\<close> with another, and both requests
  use the cache file of the same key.
\<close>

theorem host_not_in_cache_key_counterexample:
  "href (v_absoluteUrl (projr (validate example_collab example_server
       (example_request\<lparr>query_url := Str ''/a.jpg'', header_host := Some ''good.com''\<rparr>)))) =
     ''https://good.com/a.jpg'' \<and>
   href (v_absoluteUrl (projr (validate example_collab example_server
       (example_request\<lparr>query_url := Str ''/a.jpg'', header_host := Some ''evil.com''\<rparr>)))) =
     ''https://evil.com/a.jpg'' \<and>
   snd (snd (imageOptimizer example_collab example_server
       (example_request\<lparr>query_url := Str ''/a.jpg'', header_host := Some ''good.com''\<rparr>) Map.empty)) =
     [FileExists (cacheFile example_collab example_server
        (cacheKey example_collab ''/a.jpg'' ''640'' ''75'' WEBP)),
      Fetch ''https://good.com/a.jpg'',
      CreateWriteStream (cacheFile example_collab example_server
        (cacheKey example_collab ''/a.jpg'' ''640'' ''75'' WEBP))] \<and>
   snd (snd (imageOptimizer example_collab example_server
       (example_request\<lparr>query_url := Str ''/a.jpg'', header_host := Some ''evil.com''\<rparr>) Map.empty)) =
     [FileExists (cacheFile example_collab example_server
        (cacheKey example_collab ''/a.jpg'' ''640'' ''75'' WEBP)),
      Fetch ''https://evil.com/a.jpg'',
      CreateWriteStream (cacheFile example_collab example_server
        (cacheKey example_collab ''/a.jpg'' ''640'' ''75'' WEBP))]"
  by (simp add: imageOptimizer_def serve_def Let_def transformer_def validate_defs example_defs
      parseInt_examples MEDIA_TYPES_def WEBP_def)

text \<open>
  C1 (as amended). With a non-empty domain allow-list, a request whose \<open>url\<close> parameter
  parses as an absolute URL with a hostname that is not in the list is rejected with
  status 400 and the message \<open>"url" parameter is not allowed\<close>; nothing is fetched and
  the cache is not touched.
\<close>

theorem absolute_url_domain_checked:
  assumes "domains srv \<noteq> []" and "query_url req = Str url" and "url \<noteq> []"
    and "new_URL c url None = Some u" and "hostname u \<notin> set (domains srv)"
  shows "imageOptimizer c srv req fs =
    (Finished \<lparr>statusCode = 400, body = ''\"url\" parameter is not allowed''\<rparr>, fs, [])"
proof -
  from assms have "validate c srv req = Inl (reject ''\"url\" parameter is not allowed'')"
    by (simp add: validate_def resolve_url_def)
  then show ?thesis
    by (simp add: imageOptimizer_reject reject_def)
qed

theorem absolute_url_domain_checked_witness:
  "domains (example_server\<lparr>domains := [''good.com'']\<rparr>) \<noteq> [] \<and>
   new_URL example_collab ''https://evil.com/x.jpg'' None =
     Some \<lparr>href = ''https://evil.com/x.jpg'', hostname = ''evil.com''\<rparr> \<and>
   imageOptimizer example_collab (example_server\<lparr>domains := [''good.com'']\<rparr>)
       (example_request\<lparr>query_url := Str ''https://evil.com/x.jpg''\<rparr>) Map.empty =
     (Finished \<lparr>statusCode = 400, body = ''\"url\" parameter is not allowed''\<rparr>, Map.empty, [])"
proof -
  let ?srv = "example_server\<lparr>domains := [''good.com'']\<rparr>"
  let ?req = "example_request\<lparr>query_url := Str ''https://evil.com/x.jpg''\<rparr>"
  let ?u = "\<lparr>href = ''https://evil.com/x.jpg'', hostname = ''evil.com''\<rparr>"
  have d: "domains ?srv \<noteq> []"
    by simp
  have q: "query_url ?req = Str ''https://evil.com/x.jpg''" "''https://evil.com/x.jpg'' \<noteq> []"
    by simp_all
  have u: "new_URL example_collab ''https://evil.com/x.jpg'' None = Some ?u"
    by (simp add: example_collab_fields table_URL_def)
  have h: "hostname ?u \<notin> set (domains ?srv)"
    by simp
  from absolute_url_domain_checked [OF d q u h, of Map.empty] d u show ?thesis
    by simp
qed

text \<open>
  C1 as stated fails for a \<open>url\<close> that does not parse as absolute: the allow-list is
  tested only inside the \<open>try\<close> of the absolute parse. With the allow-list
  \<open>good.com\<close>, \<open>url=/a.jpg\<close> sent with \<open>Host: evil.com\<close> passes validation and
  \<open>https://evil.com/a.jpg\<close> is fetched; \<open>url=//evil.com/x.jpg\<close> sent with
  \<open>Host: good.com\<close> passes validation with the address \<open>https://evil.com/x.jpg\<close>.
\<close>

theorem relative_url_not_domain_checked_counterexample:
  "''evil.com'' \<notin> set (domains (example_server\<lparr>domains := [''good.com'']\<rparr>)) \<and>
   validate example_collab (example_server\<lparr>domains := [''good.com'']\<rparr>)
       (example_request\<lparr>query_url := Str ''/a.jpg'', header_host := Some ''evil.com''\<rparr>) =
     Inr \<lparr>v_url = ''/a.jpg'', v_w = ''640'', v_q = ''75'',
          v_absoluteUrl = \<lparr>href = ''https://evil.com/a.jpg'', hostname = ''evil.com''\<rparr>,
          v_width = 640, v_quality = 75\<rparr> \<and>
   snd (snd (imageOptimizer example_collab (example_server\<lparr>domains := [''good.com'']\<rparr>)
       (example_request\<lparr>query_url := Str ''/a.jpg'', header_host := Some ''evil.com''\<rparr>) Map.empty)) =
     [FileExists (cacheFile example_collab (example_server\<lparr>domains := [''good.com'']\<rparr>)
        (cacheKey example_collab ''/a.jpg'' ''640'' ''75'' WEBP)),
      Fetch ''https://evil.com/a.jpg'',
      CreateWriteStream (cacheFile example_collab (example_server\<lparr>domains := [''good.com'']\<rparr>)
        (cacheKey example_collab ''/a.jpg'' ''640'' ''75'' WEBP))] \<and>
   validate example_collab (example_server\<lparr>domains := [''good.com'']\<rparr>)
       (example_request\<lparr>query_url := Str ''//evil.com/x.jpg''\<rparr>) =
     Inr \<lparr>v_url = ''//evil.com/x.jpg'', v_w = ''640'', v_q = ''75'',
          v_absoluteUrl = \<lparr>href = ''https://evil.com/x.jpg'', hostname = ''evil.com''\<rparr>,
          v_width = 640, v_quality = 75\<rparr>"
  by (simp add: imageOptimizer_def serve_def Let_def transformer_def validate_defs example_defs
      parseInt_examples MEDIA_TYPES_def WEBP_def)

text \<open>
  C4. The claim asks that the cache key contains no path separator. The key is the
  \<open>base64\<close> encoding of the digest, whose alphabet contains \<open>/\<close>. For the request
  \<open>url=https://example.com/a.jpg&w=640&q=75\<close> with \<open>Accept: image/webp\<close> the hashed
  bytes are \<open>https://example.com/a.jpg64075image/webp\<close>; with SHA-256 as the hash the
  key is \<open>PXBJD2k1ZREo6zTbK+DT7TUoh+A/Jq1pj2YbFvHOyOQ=\<close>, so the cache file is
  \<open>Jq1pj2YbFvHOyOQ=\<close> in a directory below \<open>cache/images\<close>.
\<close>

theorem cache_key_with_separator:
  assumes "sha256 c = SHA256"
  shows "cacheKey c ''https://example.com/a.jpg'' ''640'' ''75'' ''image/webp'' =
      ''PXBJD2k1ZREo6zTbK+DT7TUoh+A/Jq1pj2YbFvHOyOQ='' \<and>
    CHR ''/'' \<in> set (cacheKey c ''https://example.com/a.jpg'' ''640'' ''75'' ''image/webp'')"
proof -
  have "base64 scenario_digest = ''PXBJD2k1ZREo6zTbK+DT7TUoh+A/Jq1pj2YbFvHOyOQ=''"
    by (simp add: scenario_digest_def base64_def b64_def base64_alphabet_def)
  with assms show ?thesis
    by (simp add: cacheKey_def hash_input_def SHA256_scenario)
qed

theorem cache_key_with_separator_witness:
  "sha256 (example_collab\<lparr>sha256 := SHA256\<rparr>) = SHA256 \<and>
   snd (snd (imageOptimizer (example_collab\<lparr>sha256 := SHA256\<rparr>)
       example_server example_request Map.empty)) =
     [FileExists ''.next/cache/images/PXBJD2k1ZREo6zTbK+DT7TUoh+A/Jq1pj2YbFvHOyOQ='',
      Fetch ''https://example.com/a.jpg'',
      CreateWriteStream ''.next/cache/images/PXBJD2k1ZREo6zTbK+DT7TUoh+A/Jq1pj2YbFvHOyOQ='']"
proof -
  let ?c = "example_collab\<lparr>sha256 := SHA256\<rparr>"
  have d: "sha256 ?c = SHA256"
    by simp
  have v: "validate ?c example_server example_request =
     Inr \<lparr>v_url = ''https://example.com/a.jpg'', v_w = ''640'', v_q = ''75'',
          v_absoluteUrl = \<lparr>href = ''https://example.com/a.jpg'', hostname = ''example.com''\<rparr>,
          v_width = 640, v_quality = 75\<rparr>"
    by (simp add: validate_defs example_defs parseInt_examples)
  have mt: "accept_mediaType example_collab (header_accept example_request) MEDIA_TYPES =
      ''image/webp''"
    by (simp add: example_defs MEDIA_TYPES_def WEBP_def)
  let ?key = "''PXBJD2k1ZREo6zTbK+DT7TUoh+A/Jq1pj2YbFvHOyOQ=''"
  from cache_key_with_separator [OF d]
  have key: "cacheKey ?c ''https://example.com/a.jpg'' ''640'' ''75'' ''image/webp'' = ?key"
    by simp
  have path: "cacheFile ?c example_server ?key = ''.next/cache/images/'' @ ?key"
    by (simp add: cacheFile_def example_collab_fields example_server_def join_slash_def)
  have fetched: "fetch example_collab ''https://example.com/a.jpg'' =
      Inr \<lparr>ok = True, status = 200, fetch_body = Some ''image of https://example.com/a.jpg''\<rparr>"
    by (simp add: example_collab_fields example_fetch_def)
  have accepted: "sharp_error ?c (transformer ''image/webp'' 640 75) = None"
    by (simp add: transformer_def example_collab_fields)
  have "snd (snd (imageOptimizer ?c example_server example_request Map.empty)) =
      [FileExists (''.next/cache/images/'' @ ?key), Fetch ''https://example.com/a.jpg'',
       CreateWriteStream (''.next/cache/images/'' @ ?key)]"
    by (simp add: imageOptimizer_valid [OF v] serve_def Let_def mt key path fetched accepted)
  with d show ?thesis
    by simp
qed

end
